theory Spec2Isabelle
  imports Complex_Main "HOL-Library.Product_Lexorder" "HOL-Library.List_Lexorder" "HOL-Library.Char_ord"
begin

chapter \<open>Climathia back end: station aggregation and chat intent resolution\<close>

text \<open>
  A shallow embedding of the parts of the back end that the specification makes promises
  about: the CSV normalisation of \<^verbatim>\<open>app/services/data_service.py\<close>, the daily
  aggregation and station summary of \<^verbatim>\<open>app/services/stations_service.py\<close>, the
  date endpoints of \<^verbatim>\<open>app/controllers/stations_controller.py\<close>, the heuristic
  responder and the filtered query of \<^verbatim>\<open>app/services/chatbot_service.py\<close>, and
  the intent resolver and response composer of \<^verbatim>\<open>app/services/gemini_service.py\<close>.

  Conventions. A Python exception is a value \<open>Inl e\<close> of a sum type. The state a method
  mutates is passed in and returned. What lies outside the repository (the generative-AI
  completion, the random generator, \<^verbatim>\<open>pandas.to_datetime\<close>, \<^verbatim>\<open>DataFrame.sample\<close>)
  is a parameter of the function that calls it. Floating-point measurements are modelled as exact rationals.
  A reply text is modelled by the template it is built from (one constructor per
  template of the source) together with the values interpolated into it.
\<close>

section \<open>Python strings\<close>

text \<open>
  A Python \<^verbatim>\<open>str\<close> is modelled as the list of its UTF-8 bytes. Substring, prefix and
  replacement on code points coincide with the same operations on the UTF-8 bytes.
  \<^verbatim>\<open>lower()\<close> is modelled on ASCII and on the Latin-1 supplement (U+00C0 to U+00DE,
  the range of the accented capitals of Spanish); \<^verbatim>\<open>strip()\<close> on the ASCII white
  space.
\<close>

abbreviation (input) acute_a :: string where "acute_a \<equiv> [CHR 0xC3, CHR 0xA1]"
abbreviation (input) acute_e :: string where "acute_e \<equiv> [CHR 0xC3, CHR 0xA9]"
abbreviation (input) acute_i :: string where "acute_i \<equiv> [CHR 0xC3, CHR 0xAD]"
abbreviation (input) acute_o :: string where "acute_o \<equiv> [CHR 0xC3, CHR 0xB3]"
abbreviation (input) acute_u :: string where "acute_u \<equiv> [CHR 0xC3, CHR 0xBA]"

definition code :: "char \<Rightarrow> nat" where
  "code c = of_char c"

definition is_digit :: "char \<Rightarrow> bool" where
  "is_digit c = (48 \<le> code c \<and> code c \<le> 57)"

definition is_space :: "char \<Rightarrow> bool" where
  "is_space c = ((9 \<le> code c \<and> code c \<le> 13) \<or> (28 \<le> code c \<and> code c \<le> 32))"

definition set_bit5 :: "char \<Rightarrow> char" where
  "set_bit5 c = (case c of Char b0 b1 b2 b3 b4 b5 b6 b7 \<Rightarrow> Char b0 b1 b2 b3 b4 True b6 b7)"

definition clear_bit5 :: "char \<Rightarrow> char" where
  "clear_bit5 c = (case c of Char b0 b1 b2 b3 b4 b5 b6 b7 \<Rightarrow> Char b0 b1 b2 b3 b4 False b6 b7)"

definition ascii_lower :: "char \<Rightarrow> char" where
  "ascii_lower c = (if 65 \<le> code c \<and> code c \<le> 90 then set_bit5 c else c)"

definition ascii_upper :: "char \<Rightarrow> char" where
  "ascii_upper c = (if 97 \<le> code c \<and> code c \<le> 122 then clear_bit5 c else c)"

definition latin1_upper :: "char \<Rightarrow> bool" where
  "latin1_upper d = (128 \<le> code d \<and> code d \<le> 158 \<and> code d \<noteq> 151)"

fun lower :: "string \<Rightarrow> string" where
  "lower [] = []"
| "lower [c] = [ascii_lower c]"
| "lower (c # d # ds) =
     (if c = CHR 0xC3 \<and> latin1_upper d then c # set_bit5 d # lower ds
      else ascii_lower c # lower (d # ds))"

definition strip :: "string \<Rightarrow> string" where
  "strip s = rev (dropWhile is_space (rev (dropWhile is_space s)))"

text \<open>\<^verbatim>\<open>s.startswith(p)\<close> and \<^verbatim>\<open>p in s\<close>.\<close>

definition startswith :: "string \<Rightarrow> string \<Rightarrow> bool" where
  "startswith s p = (take (length p) s = p)"

fun contains :: "string \<Rightarrow> string \<Rightarrow> bool" where
  "contains [] p = (p = [])"
| "contains (c # cs) p = (startswith (c # cs) p \<or> contains cs p)"

text \<open>\<^verbatim>\<open>s.replace(old, new)\<close> for a non-empty \<open>old\<close>: the occurrences are replaced from
  left to right, without overlap.\<close>

fun replace :: "string \<Rightarrow> string \<Rightarrow> string \<Rightarrow> string" where
  "replace [] old new = []"
| "replace (c # cs) old new =
     (if startswith (c # cs) old then new @ replace (drop (length old - 1) cs) old new
      else c # replace cs old new)"

text \<open>\<^verbatim>\<open>s.split()\<close>: the maximal runs of characters that are not white space.\<close>

fun split_acc :: "string \<Rightarrow> string \<Rightarrow> string list" where
  "split_acc cur [] = (if cur = [] then [] else [cur])"
| "split_acc cur (c # cs) =
     (if is_space c then (if cur = [] then split_acc [] cs else cur # split_acc [] cs)
      else split_acc (cur @ [c]) cs)"

definition split_ws :: "string \<Rightarrow> string list" where
  "split_ws s = split_acc [] s"

text \<open>\<^verbatim>\<open>int(g)\<close> on a string of decimal digits.\<close>

definition digit_val :: "char \<Rightarrow> int" where
  "digit_val c = int (code c) - 48"

definition int_of_digits :: "string \<Rightarrow> int" where
  "int_of_digits g = foldl (\<lambda>n c. 10 * n + digit_val c) 0 g"

section \<open>The loaded table\<close>

text \<open>
  An instant is a UTC calendar date (year, month, day) with the nanoseconds elapsed since
  midnight; instants are compared lexicographically, which is the order of time. The
  time stamps of the table are taken to carry a time zone, as the bounds with
  \<^verbatim>\<open>tzinfo=timezone.utc\<close> that the services compare them with require.
\<close>

type_synonym date = "int \<times> int \<times> int"

type_synonym instant = "date \<times> nat"

text \<open>A cell of a pandas column: absent (\<^verbatim>\<open>NaN\<close>), a number, a string, a boolean
  or a time stamp.\<close>

datatype cell = NaN | Num rat | Str string | Flag bool | Stamp instant

text \<open>
  A reading is one row of the loaded table, with the columns the \<^verbatim>\<open>StationData\<close> model
  requires as typed fields. \<open>measures\<close> gives the cell of every measurement column
  (\<^verbatim>\<open>temp\<close>, \<^verbatim>\<open>humedad\<close>, \<^verbatim>\<open>pm_2_5\<close>, ...; \<open>None\<close> is \<^verbatim>\<open>NaN\<close>) and \<open>flags\<close>
  the cell of every \<^verbatim>\<open>*_imputed\<close> column after the load. The equipment label may be
  absent: \<^verbatim>\<open>get_stations_summary\<close> provides for labels outside its priority table.
\<close>

record reading =
  timestamp :: instant
  station_id :: int
  station_name :: string
  tipo_equipo :: "string option"
  lat :: rat
  lon :: rat
  measures :: "string \<Rightarrow> rat option"
  flags :: "string \<Rightarrow> bool option"

text \<open>The table: the names of its measurement and flag columns (the six base columns
  are always there) and its rows, in file order.\<close>

record dataframe =
  columns :: "string list"
  rows :: "reading list"

definition base_columns :: "string list" where
  "base_columns = [''timestamp'', ''station_id'', ''station_name'', ''tipo_equipo'', ''lat'', ''lon'']"

definition has_column :: "dataframe \<Rightarrow> string \<Rightarrow> bool" where
  "has_column df v = (v \<in> set base_columns \<or> v \<in> set (columns df))"

definition endswith :: "string \<Rightarrow> string \<Rightarrow> bool" where
  "endswith s p = startswith (rev s) (rev p)"

definition column_value :: "reading \<Rightarrow> string \<Rightarrow> cell" where
  "column_value r v =
     (if v = ''timestamp'' then Stamp (timestamp r)
      else if v = ''station_id'' then Num (of_int (station_id r))
      else if v = ''station_name'' then Str (station_name r)
      else if v = ''tipo_equipo'' then (case tipo_equipo r of None \<Rightarrow> NaN | Some l \<Rightarrow> Str l)
      else if v = ''lat'' then Num (lat r)
      else if v = ''lon'' then Num (lon r)
      else if endswith v ''_imputed'' then (case flags r v of None \<Rightarrow> NaN | Some b \<Rightarrow> Flag b)
      else (case measures r v of None \<Rightarrow> NaN | Some x \<Rightarrow> Num x))"

datatype error = ValueError | TypeError | AttributeError | KeyError | IndexError

text \<open>\<^verbatim>\<open>Series.unique()\<close>: the distinct values in the order of their first occurrence.\<close>

definition unique :: "'a list \<Rightarrow> 'a list" where
  "unique xs = rev (remdups (rev xs))"

text \<open>A loop whose body may raise: the first exception ends it.\<close>

fun sequence :: "(error + 'a) list \<Rightarrow> error + 'a list" where
  "sequence [] = Inr []"
| "sequence (x # xs) =
     (case x of Inl e \<Rightarrow> Inl e
      | Inr v \<Rightarrow> (case sequence xs of Inl e \<Rightarrow> Inl e | Inr vs \<Rightarrow> Inr (v # vs)))"

section \<open>Loading (data\_service.py)\<close>

text \<open>
  \<^verbatim>\<open>_load_data\<close> on the table \<^verbatim>\<open>read_csv\<close> returns, a list of rows that map a column
  name to a cell: the \<^verbatim>\<open>timestamp\<close> column is parsed (\<open>to_datetime\<close> stands for
  \<^verbatim>\<open>pandas.to_datetime\<close>, \<open>None\<close> when it raises), the token \<^verbatim>\<open>NA\<close> becomes
  \<^verbatim>\<open>NaN\<close> in every column, and every column whose name ends in \<^verbatim>\<open>_imputed\<close> is mapped
  through the dictionary \<^verbatim>\<open>{'TRUE': True, 'FALSE': False}\<close>. \<^verbatim>\<open>Series.map\<close> with a
  dictionary gives \<^verbatim>\<open>NaN\<close> for a value that is not one of its keys.
\<close>

type_synonym raw_row = "string \<Rightarrow> cell"

record raw_frame =
  raw_columns :: "string list"
  raw_rows :: "raw_row list"

definition parse_timestamp :: "(string \<Rightarrow> instant option) \<Rightarrow> cell \<Rightarrow> error + cell" where
  "parse_timestamp to_datetime c =
     (case c of
        Str s \<Rightarrow> (case to_datetime s of None \<Rightarrow> Inl ValueError | Some t \<Rightarrow> Inr (Stamp t))
      | NaN \<Rightarrow> Inr NaN
      | Stamp t \<Rightarrow> Inr (Stamp t)
      | Num x \<Rightarrow> Inl TypeError
      | Flag b \<Rightarrow> Inl TypeError)"

definition replace_na :: "cell \<Rightarrow> cell" where
  "replace_na c = (if c = Str ''NA'' then NaN else c)"

definition map_imputed :: "cell \<Rightarrow> cell" where
  "map_imputed c =
     (if c = Str ''TRUE'' then Flag True else if c = Str ''FALSE'' then Flag False else NaN)"

definition load_row :: "(string \<Rightarrow> instant option) \<Rightarrow> raw_row \<Rightarrow> error + raw_row" where
  "load_row to_datetime r =
     (case parse_timestamp to_datetime (r ''timestamp'') of
        Inl e \<Rightarrow> Inl e
      | Inr t \<Rightarrow>
          Inr (\<lambda>col. if endswith col ''_imputed''
                      then map_imputed (replace_na ((r(''timestamp'' := t)) col))
                      else replace_na ((r(''timestamp'' := t)) col)))"

definition load_data :: "(string \<Rightarrow> instant option) \<Rightarrow> raw_frame \<Rightarrow> error + raw_frame" where
  "load_data to_datetime df =
     (if ''timestamp'' \<notin> set (raw_columns df) then Inl KeyError
      else (case sequence (map (load_row to_datetime) (raw_rows df)) of
              Inl e \<Rightarrow> Inl e
            | Inr rs \<Rightarrow> Inr (df\<lparr>raw_rows := rs\<rparr>)))"

text \<open>The validator \<^verbatim>\<open>validate_imputed_fields\<close> of the \<^verbatim>\<open>StationData\<close> model
  (\<^verbatim>\<open>app/models/station_data.py\<close>), which \<^verbatim>\<open>get_station_data\<close> runs on every flag of
  a row it returns.\<close>

definition validate_imputed_fields :: "cell \<Rightarrow> bool" where
  "validate_imputed_fields v =
     (case v of
        NaN \<Rightarrow> False
      | Str s \<Rightarrow> lower s \<in> set [''true'', ''1'', ''yes'', ''y'']
      | Flag b \<Rightarrow> b
      | Num x \<Rightarrow> x \<noteq> 0
      | Stamp t \<Rightarrow> True)"

section \<open>Station aggregation (stations\_service.py)\<close>

subsection \<open>Parsing the date\<close>

text \<open>
  \<^verbatim>\<open>datetime.strptime(date, "%Y-%m-%d")\<close>: four digits, a month written \<^verbatim>\<open>1[0-2]\<close>,
  \<^verbatim>\<open>0[1-9]\<close> or \<^verbatim>\<open>[1-9]\<close>, a day written \<^verbatim>\<open>3[01]\<close>, \<^verbatim>\<open>[12]\d\<close>, \<^verbatim>\<open>0[1-9]\<close>,
  \<^verbatim>\<open>[1-9]\<close> or a space and \<^verbatim>\<open>[1-9]\<close>, with nothing left over; the year is at least 1
  and the day exists in the month. Every other string raises \<^verbatim>\<open>ValueError\<close>.
\<close>

fun month_field :: "string \<Rightarrow> int option" where
  "month_field [c] = (if is_digit c \<and> c \<noteq> CHR ''0'' then Some (digit_val c) else None)"
| "month_field [c, d] =
     (if c = CHR ''1'' \<and> d \<in> set ''012'' then Some (10 + digit_val d)
      else if c = CHR ''0'' \<and> is_digit d \<and> d \<noteq> CHR ''0'' then Some (digit_val d)
      else None)"
| "month_field s = None"

fun day_field :: "string \<Rightarrow> int option" where
  "day_field [c] = (if is_digit c \<and> c \<noteq> CHR ''0'' then Some (digit_val c) else None)"
| "day_field [c, d] =
     (if c = CHR ''3'' \<and> d \<in> set ''01'' then Some (30 + digit_val d)
      else if c \<in> set ''12'' \<and> is_digit d then Some (10 * digit_val c + digit_val d)
      else if c \<in> set ''0 '' \<and> is_digit d \<and> d \<noteq> CHR ''0'' then Some (digit_val d)
      else None)"
| "day_field s = None"

definition is_leap :: "int \<Rightarrow> bool" where
  "is_leap y = (y mod 4 = 0 \<and> (y mod 100 \<noteq> 0 \<or> y mod 400 = 0))"

definition days_in_month :: "int \<Rightarrow> int \<Rightarrow> int" where
  "days_in_month y m =
     (if m = 2 then (if is_leap y then 29 else 28)
      else if m \<in> set [4, 6, 9, 11] then 30 else 31)"

definition check_date :: "int \<Rightarrow> int option \<Rightarrow> int option \<Rightarrow> error + date" where
  "check_date y mo dy =
     (case mo of
        None \<Rightarrow> Inl ValueError
      | Some m \<Rightarrow>
         (case dy of
            None \<Rightarrow> Inl ValueError
          | Some d \<Rightarrow> if 1 \<le> y \<and> d \<le> days_in_month y m then Inr (y, m, d) else Inl ValueError))"

fun strptime :: "string \<Rightarrow> error + date" where
  "strptime (y1 # y2 # y3 # y4 # sep # rest) =
     (if list_all is_digit [y1, y2, y3, y4] \<and> sep = CHR ''-'' \<and> CHR ''-'' \<in> set rest
      then check_date (int_of_digits [y1, y2, y3, y4])
             (month_field (takeWhile (\<lambda>c. c \<noteq> CHR ''-'') rest))
             (day_field (drop 1 (dropWhile (\<lambda>c. c \<noteq> CHR ''-'') rest)))
      else Inl ValueError)"
| "strptime s = Inl ValueError"

text \<open>The first and the last instant of the day, as \<^verbatim>\<open>get_all_stations_averages\<close>
  builds them: 00:00:00.000000 and 23:59:59.999999.\<close>

definition start_date :: "date \<Rightarrow> instant" where
  "start_date d = (d, 0)"

definition end_date :: "date \<Rightarrow> instant" where
  "end_date d = (d, 86399999999000)"

definition in_day :: "date \<Rightarrow> reading \<Rightarrow> bool" where
  "in_day d r = (start_date d \<le> timestamp r \<and> timestamp r \<le> end_date d)"

subsection \<open>Statistics of a column\<close>

definition round_half_even :: "rat \<Rightarrow> int" where
  "round_half_even x =
     (if x - of_int \<lfloor>x\<rfloor> < 1 / 2 then \<lfloor>x\<rfloor>
      else if 1 / 2 < x - of_int \<lfloor>x\<rfloor> then \<lfloor>x\<rfloor> + 1
      else if even \<lfloor>x\<rfloor> then \<lfloor>x\<rfloor> else \<lfloor>x\<rfloor> + 1)"

text \<open>\<^verbatim>\<open>round(x, 2)\<close>.\<close>

definition round2 :: "rat \<Rightarrow> rat" where
  "round2 x = of_int (round_half_even (x * 100)) / 100"

record stats =
  average :: rat
  count :: nat
  minimum :: rat
  maximum :: rat

definition dropna :: "cell list \<Rightarrow> cell list" where
  "dropna cs = filter (\<lambda>c. c \<noteq> NaN) cs"

text \<open>The number a cell contributes to \<^verbatim>\<open>mean\<close>, \<^verbatim>\<open>min\<close> and \<^verbatim>\<open>max\<close>; a string or a
  time stamp makes \<^verbatim>\<open>mean\<close> or \<^verbatim>\<open>round\<close> raise \<^verbatim>\<open>TypeError\<close>.\<close>

fun numeric :: "cell \<Rightarrow> rat option" where
  "numeric (Num x) = Some x"
| "numeric (Flag b) = Some (if b then 1 else 0)"
| "numeric c = None"

text \<open>The statistics of a series with at least one value: \<open>x\<close> is its first value and
  \<open>xs\<close> are the others.\<close>

definition series_stats :: "rat \<Rightarrow> rat list \<Rightarrow> stats" where
  "series_stats x xs =
     \<lparr>average = round2 ((x + sum_list xs) / of_nat (Suc (length xs))),
      count = Suc (length xs),
      minimum = round2 (fold min xs x),
      maximum = round2 (fold max xs x)\<rparr>"

text \<open>The body of the loop over \<^verbatim>\<open>variables\<close>: the value stored in
  \<^verbatim>\<open>averages[variable]\<close>, where \<open>None\<close> is Python's \<^verbatim>\<open>None\<close>.\<close>

definition variable_average :: "dataframe \<Rightarrow> reading list \<Rightarrow> string \<Rightarrow> error + stats option" where
  "variable_average df station_data variable =
     (if has_column df variable
      then (case dropna (map (\<lambda>r. column_value r variable) station_data) of
              [] \<Rightarrow> Inr None
            | v # vs \<Rightarrow>
               (case numeric v of
                  None \<Rightarrow> Inl TypeError
                | Some x \<Rightarrow>
                   (case those (map numeric vs) of
                      None \<Rightarrow> Inl TypeError
                    | Some xs \<Rightarrow> Inr (Some (series_stats x xs)))))
      else Inr None)"

text \<open>\<^verbatim>\<open>_get_average_value\<close>.\<close>

definition get_average_value :: "stats option \<Rightarrow> rat option" where
  "get_average_value avg_dict =
     (case avg_dict of None \<Rightarrow> None | Some st \<Rightarrow> Some (round2 (average st)))"

subsection \<open>Daily averages of all stations\<close>

record station_result =
  res_station_id :: int
  res_station_name :: string
  res_lat :: rat
  res_lon :: rat
  res_tipo_equipo :: "string option"
  record_count :: nat
  raw_averages :: "(string \<times> stats option) list"
  data :: "(string \<times> rat option) list"

record averages_result =
  res_date :: string
  total_stations :: nat
  stations_with_data :: nat
  res_variables :: "string list option"
  stations :: "station_result list"

definition default_variables :: "string list" where
  "default_variables = [''ica'', ''humedad'', ''pm_1'', ''pm_2_5'', ''pm_10'', ''temp'', ''precipitacion'']"

text \<open>\<^verbatim>\<open>averages.get(k)\<close>: \<^verbatim>\<open>None\<close> for a missing key and for a key that holds
  \<^verbatim>\<open>None\<close>.\<close>

definition averages_get :: "(string \<times> stats option) list \<Rightarrow> string \<Rightarrow> stats option" where
  "averages_get averages k = (case map_of averages k of None \<Rightarrow> None | Some v \<Rightarrow> v)"

definition formatted_averages :: "(string \<times> stats option) list \<Rightarrow> (string \<times> rat option) list" where
  "formatted_averages averages =
     [(''temp'', get_average_value (averages_get averages ''temp'')),
      (''hum'', get_average_value (averages_get averages ''humedad'')),
      (''pm_1p0'', get_average_value (averages_get averages ''pm_1'')),
      (''pm_2p5'', get_average_value (averages_get averages ''pm_2_5'')),
      (''pm_10p0'', get_average_value (averages_get averages ''pm_10'')),
      (''ica'', get_average_value (averages_get averages ''ica'')),
      (''precipitacion'', get_average_value (averages_get averages ''precipitacion'')),
      (''ts'', None)]"

text \<open>The body of the loop over \<^verbatim>\<open>unique_stations\<close>: \<open>Inr None\<close> is \<^verbatim>\<open>continue\<close>,
  \<open>Inr (Some s)\<close> appends \<open>s\<close> to \<^verbatim>\<open>stations_data\<close>.\<close>

definition station_averages ::
  "dataframe \<Rightarrow> reading list \<Rightarrow> string list \<Rightarrow> int \<Rightarrow> error + station_result option" where
  "station_averages df daily_data variables sid =
     (case filter (\<lambda>r. station_id r = sid) daily_data of
        [] \<Rightarrow> Inr None
      | station_info # others \<Rightarrow>
         (case sequence (map (variable_average df (station_info # others)) variables) of
            Inl e \<Rightarrow> Inl e
          | Inr avgs \<Rightarrow>
             Inr (Some \<lparr>res_station_id = sid,
                        res_station_name = station_name station_info,
                        res_lat = lat station_info,
                        res_lon = lon station_info,
                        res_tipo_equipo = tipo_equipo station_info,
                        record_count = Suc (length others),
                        raw_averages = zip variables avgs,
                        data = formatted_averages (zip variables avgs)\<rparr>)))"

definition get_all_stations_averages ::
  "dataframe \<Rightarrow> string \<Rightarrow> string list option \<Rightarrow> error + averages_result" where
  "get_all_stations_averages df date variables =
     (case strptime date of
        Inl e \<Rightarrow> Inl e
      | Inr target_date \<Rightarrow>
         (if filter (in_day target_date) (rows df) = []
          then Inr \<lparr>res_date = date, total_stations = 0, stations_with_data = 0,
                    res_variables = None, stations = []\<rparr>
          else
            (case sequence (map (station_averages df (filter (in_day target_date) (rows df))
                                   (case variables of None \<Rightarrow> default_variables | Some vs \<Rightarrow> vs))
                             (unique (map station_id (filter (in_day target_date) (rows df))))) of
               Inl e \<Rightarrow> Inl e
             | Inr stations_data \<Rightarrow>
                Inr \<lparr>res_date = date,
                     total_stations =
                       length (unique (map station_id (filter (in_day target_date) (rows df)))),
                     stations_with_data = length (List.map_filter id stations_data),
                     res_variables =
                       Some (case variables of None \<Rightarrow> default_variables | Some vs \<Rightarrow> vs),
                     stations = List.map_filter id stations_data\<rparr>)))"

subsection \<open>Daily averages of one station\<close>

datatype station_averages_reply =
    Station_averages int string nat "(string \<times> stats option) list" "(string \<times> rat option) list"
  | No_hay_datos_disponibles int string

definition get_station_averages ::
  "dataframe \<Rightarrow> int \<Rightarrow> string \<Rightarrow> string list option \<Rightarrow> error + station_averages_reply" where
  "get_station_averages df sid date variables =
     (case get_all_stations_averages df date variables of
        Inl e \<Rightarrow> Inl e
      | Inr all_averages \<Rightarrow>
         (case List.find (\<lambda>station. res_station_id station = sid) (stations all_averages) of
            Some station \<Rightarrow>
              Inr (Station_averages sid date (record_count station) (raw_averages station)
                     (data station))
          | None \<Rightarrow> Inr (No_hay_datos_disponibles sid date)))"

subsection \<open>Station summary\<close>

text \<open>
  \<^verbatim>\<open>get_stations_summary\<close>: the column \<^verbatim>\<open>priority\<close> is the label looked up in
  \<^verbatim>\<open>priority_order\<close>, 999 for every other label and for an absent one; the rows are
  sorted by station and priority; \<^verbatim>\<open>groupby('station_id').first()\<close> keeps, for every
  station in increasing order and every column, the first value of the group that is not
  absent.
\<close>

definition priority_order :: "string option \<Rightarrow> nat" where
  "priority_order l =
     (if l = Some ''VUE+AIR'' then 1 else if l = Some ''PRO'' then 2
      else if l = Some ''AIR'' then 3 else 999)"

fun first_valid :: "'a option list \<Rightarrow> 'a option" where
  "first_valid [] = None"
| "first_valid (None # xs) = first_valid xs"
| "first_valid (Some x # xs) = Some x"

record station_entry =
  sum_station_id :: int
  sum_station_name :: string
  sum_lat :: rat
  sum_lon :: rat
  sum_tipo_equipo :: "string option"

record stations_summary =
  sum_total_stations :: nat
  sum_stations :: "station_entry list"

definition df_temp :: "dataframe \<Rightarrow> reading list" where
  "df_temp df = sort_key (\<lambda>r. (station_id r, priority_order (tipo_equipo r))) (rows df)"

definition group_first :: "reading list \<Rightarrow> int \<Rightarrow> station_entry list" where
  "group_first sorted_rows sid =
     (case filter (\<lambda>r. station_id r = sid) sorted_rows of
        [] \<Rightarrow> []
      | r # rs \<Rightarrow>
          [\<lparr>sum_station_id = sid,
            sum_station_name = station_name r,
            sum_lat = lat r,
            sum_lon = lon r,
            sum_tipo_equipo = first_valid (map tipo_equipo (r # rs))\<rparr>])"

definition stations_list :: "dataframe \<Rightarrow> station_entry list" where
  "stations_list df =
     concat (map (group_first (df_temp df)) (sort (unique (map station_id (df_temp df)))))"

definition get_stations_summary :: "dataframe \<Rightarrow> stations_summary" where
  "get_stations_summary df =
     \<lparr>sum_total_stations = length (stations_list df), sum_stations = stations_list df\<rparr>"

subsection \<open>Detailed data of one station\<close>

text \<open>\<^verbatim>\<open>_format_value\<close> and \<^verbatim>\<open>row.get(column)\<close>.\<close>

definition format_value :: "rat option \<Rightarrow> rat option" where
  "format_value v = (case v of None \<Rightarrow> None | Some x \<Rightarrow> Some (round2 x))"

definition row_get :: "dataframe \<Rightarrow> reading \<Rightarrow> string \<Rightarrow> rat option" where
  "row_get df r v = (if has_column df v then measures r v else None)"

record measurement =
  m_timestamp :: instant
  m_values :: "(string \<times> rat option) list"

definition measurement_of :: "dataframe \<Rightarrow> reading \<Rightarrow> measurement" where
  "measurement_of df r =
     \<lparr>m_timestamp = timestamp r,
      m_values =
        [(''pm_1'', format_value (row_get df r ''pm_1'')),
         (''pm_2_5'', format_value (row_get df r ''pm_2_5'')),
         (''pm_10'', format_value (row_get df r ''pm_10'')),
         (''humedad'', format_value (row_get df r ''humedad'')),
         (''ica'', format_value (row_get df r ''ica'')),
         (''temperatura'', format_value (row_get df r ''temp'')),
         (''presion'', format_value (row_get df r ''presion'')),
         (''vel_viento'', format_value (row_get df r ''viento_vel'')),
         (''dir_viento'', format_value (row_get df r ''viento_dir'')),
         (''precipitacion'', format_value (row_get df r ''precipitacion''))]\<rparr>"

text \<open>The dictionary \<^verbatim>\<open>get_station_detailed_data\<close> returns. Its \<^verbatim>\<open>except\<close> clause
  catches every exception, the \<^verbatim>\<open>ValueError\<close> of \<^verbatim>\<open>strptime\<close> included, and returns
  a dictionary with \<^verbatim>\<open>success = False\<close> and the text of the exception.\<close>

record detailed_data =
  success :: bool
  error_text :: "error option"
  det_station_id :: int
  det_station_name :: "string option"
  det_date :: string
  total_measurements :: "nat option"
  measurements :: "measurement list"

definition get_station_detailed_data :: "dataframe \<Rightarrow> int \<Rightarrow> string \<Rightarrow> detailed_data" where
  "get_station_detailed_data df sid date =
     (case strptime date of
        Inl e \<Rightarrow>
          \<lparr>success = False, error_text = Some e, det_station_id = sid,
           det_station_name = None, det_date = date, total_measurements = None,
           measurements = []\<rparr>
      | Inr target_date \<Rightarrow>
         (case sort_key timestamp
                 (filter (\<lambda>r. station_id r = sid \<and> in_day target_date r) (rows df)) of
            [] \<Rightarrow>
              \<lparr>success = True, error_text = None, det_station_id = sid,
               det_station_name = None, det_date = date, total_measurements = None,
               measurements = []\<rparr>
          | station_info # others \<Rightarrow>
              \<lparr>success = True, error_text = None, det_station_id = sid,
               det_station_name = Some (station_name station_info), det_date = date,
               total_measurements = Some (Suc (length others)),
               measurements = map (measurement_of df) (station_info # others)\<rparr>))"

section \<open>The date endpoints (stations\_controller.py)\<close>

text \<open>
  An endpoint returns its payload (status 200) or raises \<^verbatim>\<open>HTTPException\<close> with a status
  code and a detail. The details are the four templates of the controller; the two that
  interpolate the exception carry it.
\<close>

datatype detail =
    Formato_de_fecha_invalido error
  | Error_interno_del_servidor error
  | Error_procesando_datos_de_la_estacion
  | Error_en_el_formato_de_datos

datatype 'a http = Response 'a | HTTPException nat detail

text \<open>\<^verbatim>\<open>s.split(sep)\<close> for a separator of one character.\<close>

fun split_on :: "char \<Rightarrow> string \<Rightarrow> string list" where
  "split_on sep [] = [[]]"
| "split_on sep (c # cs) =
     (if c = sep then [] # split_on sep cs
      else (case split_on sep cs of [] \<Rightarrow> [[c]] | w # ws \<Rightarrow> (c # w) # ws))"

definition variable_list :: "string \<Rightarrow> string list" where
  "variable_list variables = map strip (split_on (CHR '','') variables)"

definition averages_endpoint :: "dataframe \<Rightarrow> string \<Rightarrow> string \<Rightarrow> averages_result http" where
  "averages_endpoint df date variables =
     (case get_all_stations_averages df date (Some (variable_list variables)) of
        Inr result \<Rightarrow> Response result
      | Inl e \<Rightarrow>
          (if e = ValueError then HTTPException 400 (Formato_de_fecha_invalido e)
           else HTTPException 500 (Error_interno_del_servidor e)))"

text \<open>\<^verbatim>\<open>get_station_detailed_data\<close> of the service never raises, so neither
  \<^verbatim>\<open>except\<close> clause of its endpoint is ever taken.\<close>

definition detailed_data_endpoint :: "dataframe \<Rightarrow> int \<Rightarrow> string \<Rightarrow> detailed_data http" where
  "detailed_data_endpoint df sid date = Response (get_station_detailed_data df sid date)"

definition station_averages_endpoint ::
  "dataframe \<Rightarrow> int \<Rightarrow> string \<Rightarrow> string \<Rightarrow> station_averages_reply http" where
  "station_averages_endpoint df sid date variables =
     (case get_station_averages df sid date (Some (variable_list variables)) of
        Inr result \<Rightarrow> Response result
      | Inl e \<Rightarrow>
          (if e = ValueError then HTTPException 400 (Formato_de_fecha_invalido e)
           else if e = AttributeError then HTTPException 500 Error_procesando_datos_de_la_estacion
           else if e = TypeError then HTTPException 500 Error_en_el_formato_de_datos
           else HTTPException 500 (Error_interno_del_servidor e)))"

section \<open>The chatbot service (chatbot\_service.py)\<close>

subsection \<open>Filtered data\<close>

text \<open>\<^verbatim>\<open>Series.min()\<close> and \<^verbatim>\<open>Series.max()\<close>: \<open>None\<close> (\<^verbatim>\<open>NaT\<close>) on an empty
  series.\<close>

definition series_min :: "'a::linorder list \<Rightarrow> 'a option" where
  "series_min xs = (case xs of [] \<Rightarrow> None | x # rest \<Rightarrow> Some (fold min rest x))"

definition series_max :: "'a::linorder list \<Rightarrow> 'a option" where
  "series_max xs = (case xs of [] \<Rightarrow> None | x # rest \<Rightarrow> Some (fold max rest x))"

record chatbot_query =
  q_stations :: "int list option"
  q_variables :: "string list option"
  q_date_range :: "(string \<times> string) list option"
  include_raw_data :: bool
  max_records :: int

record filtered_result =
  total_records :: nat
  stations_count :: nat
  date_range_start :: "instant option"
  date_range_end :: "instant option"
  result_columns :: "string list"
  result_data :: "reading list option"

definition filter_stations :: "chatbot_query \<Rightarrow> reading list \<Rightarrow> reading list" where
  "filter_stations query rs =
     (case q_stations query of
        None \<Rightarrow> rs
      | Some ids \<Rightarrow> if ids = [] then rs else filter (\<lambda>r. station_id r \<in> set ids) rs)"

definition filter_from ::
  "(string \<Rightarrow> instant option) \<Rightarrow> string option \<Rightarrow> reading list \<Rightarrow> error + reading list" where
  "filter_from to_datetime start rs =
     (case start of
        None \<Rightarrow> Inr rs
      | Some s \<Rightarrow>
         (case to_datetime s of
            None \<Rightarrow> Inl ValueError
          | Some t \<Rightarrow> Inr (filter (\<lambda>r. t \<le> timestamp r) rs)))"

definition filter_until ::
  "(string \<Rightarrow> instant option) \<Rightarrow> string option \<Rightarrow> reading list \<Rightarrow> error + reading list" where
  "filter_until to_datetime until rs =
     (case until of
        None \<Rightarrow> Inr rs
      | Some s \<Rightarrow>
         (case to_datetime s of
            None \<Rightarrow> Inl ValueError
          | Some t \<Rightarrow> Inr (filter (\<lambda>r. timestamp r \<le> t) rs)))"

definition filter_dates ::
  "(string \<Rightarrow> instant option) \<Rightarrow> chatbot_query \<Rightarrow> reading list \<Rightarrow> error + reading list" where
  "filter_dates to_datetime query rs =
     (case q_date_range query of
        None \<Rightarrow> Inr rs
      | Some dr \<Rightarrow>
         (if dr = [] then Inr rs
          else (case filter_from to_datetime (map_of dr ''start'') rs of
                  Inl e \<Rightarrow> Inl e
                | Inr rs' \<Rightarrow> filter_until to_datetime (map_of dr ''end'') rs')))"

definition select_columns :: "dataframe \<Rightarrow> chatbot_query \<Rightarrow> string list" where
  "select_columns df query =
     (case q_variables query of
        None \<Rightarrow> base_columns @ columns df
      | Some vars \<Rightarrow>
         (if vars = [] then base_columns @ columns df
          else [''timestamp'', ''station_id'', ''station_name'', ''lat'', ''lon'']
               @ filter (has_column df) vars))"

text \<open>\<^verbatim>\<open>DataFrame.sample(n)\<close> draws \<open>n\<close> rows at random; \<open>sample\<close> stands for the
  generator. A negative \<open>n\<close> raises \<^verbatim>\<open>ValueError\<close>.\<close>

definition limit_records ::
  "(reading list \<Rightarrow> nat \<Rightarrow> reading list) \<Rightarrow> chatbot_query \<Rightarrow> reading list \<Rightarrow> error + reading list" where
  "limit_records sample query rs =
     (if max_records query < int (length rs)
      then (if max_records query < 0 then Inl ValueError
            else Inr (sample rs (nat (max_records query))))
      else Inr rs)"

text \<open>The result dictionary. A variable named \<^verbatim>\<open>timestamp\<close> selects that column a second
  time; \<^verbatim>\<open>df_filtered['timestamp'].min()\<close> is then a series, which has no
  \<^verbatim>\<open>isoformat\<close>.\<close>

definition build_result :: "chatbot_query \<Rightarrow> string list \<Rightarrow> reading list \<Rightarrow> error + filtered_result" where
  "build_result query cols rs =
     (if 1 < length (filter (\<lambda>c. c = ''timestamp'') cols) then Inl AttributeError
      else Inr \<lparr>total_records = length rs,
                stations_count = length (remdups (map station_id rs)),
                date_range_start = series_min (map timestamp rs),
                date_range_end = series_max (map timestamp rs),
                result_columns = cols,
                result_data = (if include_raw_data query then Some rs else None)\<rparr>)"

definition get_filtered_data ::
  "(string \<Rightarrow> instant option) \<Rightarrow> (reading list \<Rightarrow> nat \<Rightarrow> reading list) \<Rightarrow>
   dataframe \<Rightarrow> chatbot_query \<Rightarrow> error + filtered_result" where
  "get_filtered_data to_datetime sample df query =
     (case filter_dates to_datetime query (filter_stations query (rows df)) of
        Inl e \<Rightarrow> Inl e
      | Inr dated \<Rightarrow>
         (case limit_records sample query dated of
            Inl e \<Rightarrow> Inl e
          | Inr limited \<Rightarrow> build_result query (select_columns df query) limited))"

subsection \<open>Replies of the heuristic responder\<close>

datatype estado = Buena | Moderada | Danina_para_grupos_sensibles | Danina

datatype reply =
    Hola
  | Buenos_dias
  | Buenas_tardes
  | Tenemos_estaciones nat
  | Las_estaciones_miden
  | Que_es_pm25
  | Que_es_ica
  | Que_es_humedad
  | Tenemos_registros nat
  | Los_datos_van_desde instant instant
  | Estacion_numero int string reading
  | Solo_tenemos_estaciones nat
  | No_pude_obtener_informacion
  | Temperatura_promedio "rat option" "rat option" "rat option"
  | Humedad_promedio "rat option"
  | Calidad_del_aire_promedio "rat option" estado
  | PM25_mas_alto rat string
  | Mejor_calidad_del_aire string rat
  | Peor_calidad_del_aire string rat
  | Respuesta_de_gemini string
  | Fuera_de_scope string
  | No_pude_procesar_con_IA
  | Respuesta_fallback string
  | Lo_siento_ocurrio_un_error

subsection \<open>The phrase table\<close>

text \<open>
  The dictionary \<^verbatim>\<open>respuestas_heuristicas\<close> is built on every call, all of its values
  before the look-up. The two last values format \<^verbatim>\<open>self.df['timestamp'].min()\<close> and
  \<^verbatim>\<open>max()\<close> with \<^verbatim>\<open>strftime\<close>; on a table without rows both are \<^verbatim>\<open>NaT\<close>, whose
  \<^verbatim>\<open>strftime\<close> raises \<^verbatim>\<open>ValueError\<close>.
\<close>

definition nunique :: "'a list \<Rightarrow> nat" where
  "nunique xs = length (remdups xs)"

definition respuestas_heuristicas :: "dataframe \<Rightarrow> error + (string \<times> reply) list" where
  "respuestas_heuristicas df =
     (case series_min (map timestamp (rows df)) of
        None \<Rightarrow> Inl ValueError
      | Some desde \<Rightarrow>
         (case series_max (map timestamp (rows df)) of
            None \<Rightarrow> Inl ValueError
          | Some hasta \<Rightarrow>
             Inr [(''hola'', Hola),
                  (''buenos d'' @ acute_i @ ''as'', Buenos_dias),
                  (''buenas tardes'', Buenas_tardes),
                  (''cu'' @ acute_a @ ''ntas estaciones hay'',
                     Tenemos_estaciones (nunique (map station_id (rows df)))),
                  (''cuantas estaciones hay'',
                     Tenemos_estaciones (nunique (map station_id (rows df)))),
                  (''qu'' @ acute_e @ '' variables miden'', Las_estaciones_miden),
                  (''que variables miden'', Las_estaciones_miden),
                  (''qu'' @ acute_e @ '' es pm2.5'', Que_es_pm25),
                  (''que es pm2.5'', Que_es_pm25),
                  (''qu'' @ acute_e @ '' es ica'', Que_es_ica),
                  (''que es ica'', Que_es_ica),
                  (''qu'' @ acute_e @ '' es humedad'', Que_es_humedad),
                  (''que es humedad'', Que_es_humedad),
                  (''cu'' @ acute_a @ ''ntos registros hay'', Tenemos_registros (length (rows df))),
                  (''cuantos registros hay'', Tenemos_registros (length (rows df))),
                  (''desde cu'' @ acute_a @ ''ndo hay datos'', Los_datos_van_desde desde hasta),
                  (''desde cuando hay datos'', Los_datos_van_desde desde hasta)]))"

subsection \<open>The patterns\<close>

text \<open>
  Every pattern has the form \<^verbatim>\<open>.*A.*B.*\<close> and is tried with \<^verbatim>\<open>re.search\<close>. The dot
  matches every character but the newline, so the pattern matches when some line holds
  \<open>A\<close> and, after it, \<open>B\<close>. In the first pattern, where \<open>A\<close> is the word for
  station and \<open>B\<close> is \<^verbatim>\<open>(\d+)\<close>, both stars are greedy: in the first line that
  matches, the group is the last digit of the line, one character.
\<close>

fun after :: "string \<Rightarrow> string \<Rightarrow> string option" where
  "after [] p = (if p = [] then Some [] else None)"
| "after (c # cs) p =
     (if startswith (c # cs) p then Some (drop (length p) (c # cs)) else after cs p)"

definition line_matches :: "string \<Rightarrow> (string \<Rightarrow> bool) \<Rightarrow> string \<Rightarrow> bool" where
  "line_matches a b l = (case after l a of None \<Rightarrow> False | Some rest \<Rightarrow> b rest)"

definition pattern_matches :: "string \<Rightarrow> string \<Rightarrow> string \<Rightarrow> bool" where
  "pattern_matches a b s =
     list_ex (line_matches a (\<lambda>rest. contains rest b)) (split_on (CHR 0x0A) s)"

definition estacion_match :: "string \<Rightarrow> string option" where
  "estacion_match s =
     (case List.find (line_matches (''estaci'' @ acute_o @ ''n'') (list_ex is_digit))
             (split_on (CHR 0x0A) s) of
        None \<Rightarrow> None
      | Some l \<Rightarrow> (case List.find is_digit (rev l) of None \<Rightarrow> None | Some c \<Rightarrow> Some [c]))"

subsection \<open>The handlers\<close>

text \<open>Python's \<^verbatim>\<open>xs[i]\<close>: a negative index counts from the end of the list.\<close>

definition py_index :: "'a list \<Rightarrow> int \<Rightarrow> error + 'a" where
  "py_index xs i =
     (if 0 \<le> i \<and> i < int (length xs) then Inr (xs ! nat i)
      else if i < 0 \<and> 0 \<le> int (length xs) + i then Inr (xs ! nat (int (length xs) + i))
      else Inl IndexError)"

text \<open>\<^verbatim>\<open>station_data.loc[station_data['timestamp'].idxmax()]\<close>: the first row with the
  greatest time stamp.\<close>

definition latest_row :: "reading list \<Rightarrow> reading option" where
  "latest_row rs =
     (case series_max (map timestamp rs) of
        None \<Rightarrow> None
      | Some t \<Rightarrow> List.find (\<lambda>r. timestamp r = t) rs)"

text \<open>\<^verbatim>\<open>_responder_estacion_por_numero\<close>, on the text of the group. Its \<^verbatim>\<open>except\<close>
  clause turns every exception into one fixed reply.\<close>

definition responder_estacion_por_numero :: "dataframe \<Rightarrow> string \<Rightarrow> reply" where
  "responder_estacion_por_numero df group1 =
     (if int_of_digits group1 \<le> int (length (unique (map station_id (rows df))))
      then (case py_index (sort (unique (map station_id (rows df)))) (int_of_digits group1 - 1) of
              Inl e \<Rightarrow> No_pude_obtener_informacion
            | Inr sid \<Rightarrow>
               (case filter (\<lambda>r. station_id r = sid) (rows df) of
                  [] \<Rightarrow> No_pude_obtener_informacion
                | r # rs \<Rightarrow>
                   (case latest_row (r # rs) of
                      None \<Rightarrow> No_pude_obtener_informacion
                    | Some latest \<Rightarrow>
                        Estacion_numero (int_of_digits group1) (station_name r) latest)))
      else Solo_tenemos_estaciones (length (unique (map station_id (rows df)))))"

text \<open>The six handlers that quote a statistic. \<^verbatim>\<open>self.df[column]\<close> raises \<^verbatim>\<open>KeyError\<close>
  when the table lacks the column; \<^verbatim>\<open>mean()\<close> of a series without values is
  \<^verbatim>\<open>NaN\<close> (\<open>None\<close>); \<^verbatim>\<open>idxmax()\<close> and \<^verbatim>\<open>idxmin()\<close> of such a series raise.\<close>

definition column_numbers :: "reading list \<Rightarrow> string \<Rightarrow> rat list" where
  "column_numbers rs v = List.map_filter (\<lambda>r. measures r v) rs"

definition mean_opt :: "rat list \<Rightarrow> rat option" where
  "mean_opt xs =
     (case xs of [] \<Rightarrow> None | x # rest \<Rightarrow> Some ((x + sum_list rest) / of_nat (Suc (length rest))))"

definition responder_temperatura_promedio :: "dataframe \<Rightarrow> error + reply" where
  "responder_temperatura_promedio df =
     (if has_column df ''temp''
      then Inr (Temperatura_promedio (mean_opt (column_numbers (rows df) ''temp''))
                  (series_min (column_numbers (rows df) ''temp''))
                  (series_max (column_numbers (rows df) ''temp'')))
      else Inl KeyError)"

definition responder_humedad_promedio :: "dataframe \<Rightarrow> error + reply" where
  "responder_humedad_promedio df =
     (if has_column df ''humedad''
      then Inr (Humedad_promedio (mean_opt (column_numbers (rows df) ''humedad'')))
      else Inl KeyError)"

definition estado_de :: "rat option \<Rightarrow> estado" where
  "estado_de ica_promedio =
     (case ica_promedio of
        None \<Rightarrow> Danina
      | Some x \<Rightarrow>
          if x \<le> 50 then Buena else if x \<le> 100 then Moderada
          else if x \<le> 150 then Danina_para_grupos_sensibles else Danina)"

definition responder_calidad_aire_general :: "dataframe \<Rightarrow> error + reply" where
  "responder_calidad_aire_general df =
     (if has_column df ''ica''
      then Inr (Calidad_del_aire_promedio (mean_opt (column_numbers (rows df) ''ica''))
                  (estado_de (mean_opt (column_numbers (rows df) ''ica''))))
      else Inl KeyError)"

definition responder_pm_alto :: "dataframe \<Rightarrow> error + reply" where
  "responder_pm_alto df =
     (if has_column df ''pm_2_5''
      then (case series_max (column_numbers (rows df) ''pm_2_5'') of
              None \<Rightarrow> Inl ValueError
            | Some pm_max \<Rightarrow>
               (case List.find (\<lambda>r. measures r ''pm_2_5'' = Some pm_max) (rows df) of
                  None \<Rightarrow> Inl KeyError
                | Some r \<Rightarrow> Inr (PM25_mas_alto pm_max (station_name r))))
      else Inl KeyError)"

text \<open>\<^verbatim>\<open>self.df.groupby('station_name')['ica'].mean()\<close>: the stations in the order of
  their names, each with the mean of its values, without the stations that have none.\<close>

definition ica_by_station :: "dataframe \<Rightarrow> (string \<times> rat) list" where
  "ica_by_station df =
     List.map_filter
       (\<lambda>name. map_option (Pair name)
          (mean_opt (column_numbers (filter (\<lambda>r. station_name r = name) (rows df)) ''ica'')))
       (sort (remdups (map station_name (rows df))))"

definition responder_mejor_aire :: "dataframe \<Rightarrow> error + reply" where
  "responder_mejor_aire df =
     (if has_column df ''ica''
      then (case series_min (map snd (ica_by_station df)) of
              None \<Rightarrow> Inl ValueError
            | Some ica_valor \<Rightarrow>
               (case List.find (\<lambda>p. snd p = ica_valor) (ica_by_station df) of
                  None \<Rightarrow> Inl ValueError
                | Some p \<Rightarrow> Inr (Mejor_calidad_del_aire (fst p) ica_valor)))
      else Inl KeyError)"

definition responder_peor_aire :: "dataframe \<Rightarrow> error + reply" where
  "responder_peor_aire df =
     (if has_column df ''ica''
      then (case series_max (map snd (ica_by_station df)) of
              None \<Rightarrow> Inl ValueError
            | Some ica_valor \<Rightarrow>
               (case List.find (\<lambda>p. snd p = ica_valor) (ica_by_station df) of
                  None \<Rightarrow> Inl ValueError
                | Some p \<Rightarrow> Inr (Peor_calidad_del_aire (fst p) ica_valor)))
      else Inl KeyError)"

subsection \<open>The heuristic responder\<close>

text \<open>The loop over \<^verbatim>\<open>patrones\<close>: the handler of the first pattern that matches
  answers; \<open>Inr None\<close> is \<^verbatim>\<open>return None\<close>.\<close>

definition patrones :: "dataframe \<Rightarrow> string \<Rightarrow> error + reply option" where
  "patrones df pregunta_lower =
     (case estacion_match pregunta_lower of
        Some group1 \<Rightarrow> Inr (Some (responder_estacion_por_numero df group1))
      | None \<Rightarrow>
         (if pattern_matches ''temperatura'' ''promedio'' pregunta_lower
            then map_sum id Some (responder_temperatura_promedio df)
          else if pattern_matches ''humedad'' ''promedio'' pregunta_lower
            then map_sum id Some (responder_humedad_promedio df)
          else if pattern_matches ''calidad'' ''aire'' pregunta_lower
            then map_sum id Some (responder_calidad_aire_general df)
          else if pattern_matches ''pm'' ''alto'' pregunta_lower
            then map_sum id Some (responder_pm_alto df)
          else if pattern_matches ''mejor'' ''aire'' pregunta_lower
            then map_sum id Some (responder_mejor_aire df)
          else if pattern_matches ''peor'' ''aire'' pregunta_lower
            then map_sum id Some (responder_peor_aire df)
          else Inr None))"

definition responder_heuristico :: "dataframe \<Rightarrow> string \<Rightarrow> error + reply option" where
  "responder_heuristico df pregunta =
     (case respuestas_heuristicas df of
        Inl e \<Rightarrow> Inl e
      | Inr table \<Rightarrow>
         (case map_of table (strip (lower pregunta)) of
            Some respuesta \<Rightarrow> Inr (Some respuesta)
          | None \<Rightarrow> patrones df (strip (lower pregunta))))"

subsection \<open>The hybrid responder\<close>

definition palabras_climaticas :: "string list" where
  "palabras_climaticas =
     [''clima'', ''temperatura'', ''temp'', ''calor'', ''fr'' @ acute_i @ ''o'', ''grados'',
      ''humedad'', ''h'' @ acute_u @ ''medo'', ''seco'', ''vapor'',
      ''lluvia'', ''precipitaci'' @ acute_o @ ''n'', ''lloviendo'', ''agua'',
      ''viento'', ''brisa'', ''velocidad'',
      ''presi'' @ acute_o @ ''n'', ''atmosf'' @ acute_e @ ''rica'', ''hpa'',
      ''aire'', ''calidad'', ''contaminaci'' @ acute_o @ ''n'', ''limpio'',
      ''pm2.5'', ''pm10'', ''pm'', ''part'' @ acute_i @ ''culas'', ''polvo'',
      ''ica'', acute_i @ ''ndice'', ''aqi'', ''smog'',
      ''estaci'' @ acute_o @ ''n'', ''estaciones'', ''sensor'', ''monitoreo'',
      ''datos'', ''medici'' @ acute_o @ ''n'', ''registro'']"

definition es_pregunta_climatica :: "string \<Rightarrow> bool" where
  "es_pregunta_climatica pregunta = list_ex (contains (lower pregunta)) palabras_climaticas"

text \<open>The two markers of a contextual question; each starts with an emoji (U+1F4CD and
  U+1F4CA).\<close>

definition es_pregunta_contextual :: "string \<Rightarrow> bool" where
  "es_pregunta_contextual pregunta =
     (contains pregunta ([CHR 0xF0, CHR 0x9F, CHR 0x93, CHR 0x8D] @ '' **Estaci'' @ acute_o @ ''n:**'')
      \<or> contains pregunta ([CHR 0xF0, CHR 0x9F, CHR 0x93, CHR 0x8A]
                             @ '' **Promedios del per'' @ acute_i @ ''odo:**''))"

text \<open>Whether \<^verbatim>\<open>_crear_contexto_mejorado_para_gemini\<close> returns a context: it falls back
  to \<^verbatim>\<open>_crear_contexto_para_gemini\<close>, which formats the first and the last time stamp
  and reads the four columns named here. The text of the context is not modelled.\<close>

definition contexto_disponible :: "dataframe \<Rightarrow> bool" where
  "contexto_disponible df =
     (rows df \<noteq> [] \<and> list_all (has_column df) [''temp'', ''humedad'', ''ica'', ''pm_2_5''])"

text \<open>
  \<^verbatim>\<open>_responder_con_gemini\<close> and \<^verbatim>\<open>responder_pregunta\<close>. \<open>gemini\<close> is the completion
  call: \<open>None\<close> when it raises, otherwise the text of the answer, for the prompt built
  around the question. Both functions return the reply and the list of the questions
  they sent to the completion service. Every reply of the heuristic responder is a
  non-empty text, so the test \<^verbatim>\<open>if respuesta_heuristica\<close> holds exactly when the
  responder did not return \<^verbatim>\<open>None\<close>.
\<close>

definition responder_con_gemini ::
  "(string \<Rightarrow> string option) \<Rightarrow> dataframe \<Rightarrow> string \<Rightarrow> reply \<times> string list" where
  "responder_con_gemini gemini df pregunta =
     (if \<not> es_pregunta_contextual pregunta \<and> \<not> es_pregunta_climatica pregunta
        then (Fuera_de_scope pregunta, [])
      else if \<not> contexto_disponible df then (No_pude_procesar_con_IA, [])
      else (case gemini pregunta of
              None \<Rightarrow> (No_pude_procesar_con_IA, [pregunta])
            | Some text \<Rightarrow> (Respuesta_de_gemini (strip text), [pregunta])))"

definition responder_pregunta ::
  "(string \<Rightarrow> string option) \<Rightarrow> bool \<Rightarrow> dataframe \<Rightarrow> string \<Rightarrow> reply \<times> string list" where
  "responder_pregunta gemini has_gemini df pregunta =
     (case responder_heuristico df pregunta of
        Inl e \<Rightarrow> (Lo_siento_ocurrio_un_error, [])
      | Inr (Some respuesta_heuristica) \<Rightarrow> (respuesta_heuristica, [])
      | Inr None \<Rightarrow>
          if has_gemini then responder_con_gemini gemini df pregunta
          else (Respuesta_fallback pregunta, []))"

subsection \<open>The complete data\<close>

text \<open>
  Of \<^verbatim>\<open>get_complete_data_for_chatbot\<close> the model keeps what the composer reads: the
  stations in the order of their first row, each with its name and its latest
  measurements, the number of records and the number of days. The call raises when the
  table has no rows (\<^verbatim>\<open>_get_context_info\<close> formats the first time stamp) and when the
  first row of a station has no equipment label (\<^verbatim>\<open>StationSummary\<close> requires a string).
\<close>

record station_summary =
  ss_station_id :: int
  ss_station_name :: string
  latest_timestamp :: instant
  latest_measurements :: "(string \<times> rat) list"

record complete_data =
  cd_stations :: "station_summary list"
  cd_total_records :: nat
  cd_total_days :: nat

definition get_latest_measurements :: "dataframe \<Rightarrow> reading \<Rightarrow> (string \<times> rat) list" where
  "get_latest_measurements df latest =
     List.map_filter (\<lambda>var. map_option (Pair var) (row_get df latest var))
       [''temp'', ''humedad'', ''presion'', ''viento_vel'', ''pm_2_5'', ''ica'', ''precipitacion'']"

definition station_summary_of :: "dataframe \<Rightarrow> int \<Rightarrow> error + station_summary" where
  "station_summary_of df sid =
     (case filter (\<lambda>r. station_id r = sid) (rows df) of
        [] \<Rightarrow> Inl IndexError
      | station_info # others \<Rightarrow>
         (case latest_row (station_info # others) of
            None \<Rightarrow> Inl ValueError
          | Some latest \<Rightarrow>
              if tipo_equipo station_info = None then Inl ValueError
              else Inr \<lparr>ss_station_id = sid,
                        ss_station_name = station_name station_info,
                        latest_timestamp = timestamp latest,
                        latest_measurements = get_latest_measurements df latest\<rparr>))"

definition get_complete_data_for_chatbot :: "dataframe \<Rightarrow> error + complete_data" where
  "get_complete_data_for_chatbot df =
     (case sequence (map (station_summary_of df) (unique (map station_id (rows df)))) of
        Inl e \<Rightarrow> Inl e
      | Inr sts \<Rightarrow>
          if rows df = [] then Inl ValueError
          else Inr \<lparr>cd_stations = sts,
                    cd_total_records = length (rows df),
                    cd_total_days = nunique (map (\<lambda>r. fst (timestamp r)) (rows df))\<rparr>)"

section \<open>Intent resolution (gemini\_service.py)\<close>

text \<open>
  An intent is a Python dictionary. Its values are taken to be \<^verbatim>\<open>None\<close>, integers
  and strings, as the dictionaries \<^verbatim>\<open>interpretar_pregunta\<close> builds and the schema of
  its prompt have them. \<^verbatim>\<open>json.loads\<close> may also return a value that is not a
  dictionary.
\<close>

datatype pyval = PNone | PInt int | PStr string

type_synonym pydict = "(string \<times> pyval) list"

datatype jsonval = JDict pydict | JNonDict

datatype menu = Estaciones | Conceptos

text \<open>The two regular expressions of \<^verbatim>\<open>interpretar_pregunta\<close>, matched with
  \<^verbatim>\<open>re.match\<close>: \<^verbatim>\<open>^([a-fA-F])$\<close> and \<^verbatim>\<open>^(\d+)$\<close>. The anchor \<^verbatim>\<open>$\<close> matches at
  the end of the string and just before a final newline.\<close>

definition is_af :: "char \<Rightarrow> bool" where
  "is_af c = ((97 \<le> code c \<and> code c \<le> 102) \<or> (65 \<le> code c \<and> code c \<le> 70))"

fun letra_match :: "string \<Rightarrow> char option" where
  "letra_match [c] = (if is_af c then Some c else None)"
| "letra_match [c, n] = (if is_af c \<and> n = CHR 0x0A then Some c else None)"
| "letra_match q = None"

definition before_final_newline :: "string \<Rightarrow> string" where
  "before_final_newline q = (if q \<noteq> [] \<and> last q = CHR 0x0A then butlast q else q)"

definition numero_match :: "string \<Rightarrow> string option" where
  "numero_match q =
     (if q \<noteq> [] \<and> list_all is_digit q then Some q
      else if before_final_newline q \<noteq> [] \<and> list_all is_digit (before_final_newline q)
      then Some (before_final_newline q)
      else None)"

definition saludos :: "string list" where
  "saludos = [''hola'', ''hi'', ''hello'', ''buenas'', ''buenos'']"

definition preguntas_complejas :: "string list" where
  "preguntas_complejas =
     [''cu'' @ acute_a @ ''l'', ''cual'', ''mejor'', ''peor'', ''mayor'', ''menor'',
      ''m'' @ acute_a @ ''s alto'', ''mas alto'', ''m'' @ acute_a @ ''s bajo'', ''mas bajo'',
      ''comparar'', ''compara'', ''diferencia'', ''ranking'',
      ''m'' @ acute_a @ ''ximo'', ''maximo'', ''m'' @ acute_i @ ''nimo'', ''minimo'',
      ''promedio'', ''estad'' @ acute_i @ ''stica'']"

definition que_es_acento :: string where
  "que_es_acento = ''qu'' @ acute_e @ '' es ''"

definition cuantas_estaciones_acento :: string where
  "cuantas_estaciones_acento = ''cu'' @ acute_a @ ''ntas estaciones''"

text \<open>
  \<^verbatim>\<open>interpretar_pregunta\<close>. The parameter \<open>gemini\<close> is the classification call together
  with \<^verbatim>\<open>json.loads\<close>: \<open>None\<close> when the call raises or its text is not JSON, otherwise
  the parsed value. \<open>has_gemini\<close> and \<open>last_menu_shown\<close> are the fields of the service
  the method reads; it writes none.
\<close>

definition interpretar_pregunta ::
  "(string \<Rightarrow> jsonval option) \<Rightarrow> bool \<Rightarrow> menu option \<Rightarrow> string \<Rightarrow> jsonval" where
  "interpretar_pregunta gemini has_gemini last_menu_shown pregunta =
     (if pregunta = [] then JDict [(''accion'', PStr ''saludo'')]
      else if list_ex (contains (strip (lower pregunta))) saludos
        then JDict [(''accion'', PStr ''saludo'')]
      else if last_menu_shown = None \<and> strip (lower pregunta) = ''a''
        then JDict [(''accion'', PStr ''listar'')]
      else if last_menu_shown = None \<and> strip (lower pregunta) = ''b''
        then JDict [(''accion'', PStr ''concepto''), (''variable'', PNone)]
      else if startswith (strip (lower pregunta)) que_es_acento
              \<or> startswith (strip (lower pregunta)) ''que es ''
        then JDict [(''accion'', PStr ''concepto''),
                    (''variable'', PStr (strip (replace (replace (strip (lower pregunta))
                                     que_es_acento []) ''que es '' [])))]
      else if list_ex (contains (strip (lower pregunta))) preguntas_complejas
        then JDict [(''accion'', PStr ''pregunta_abierta''), (''pregunta_original'', PStr pregunta)]
      else if contains (strip (lower pregunta)) cuantas_estaciones_acento
              \<or> contains (strip (lower pregunta)) ''cuantas estaciones''
        then JDict [(''accion'', PStr ''general'')]
      else if \<not> has_gemini
        then JDict [(''accion'', PStr ''estado_actual''), (''estacion'', PStr pregunta)]
      else (case letra_match (strip (lower pregunta)) of
          Some c \<Rightarrow> JDict [(''accion'', PStr ''concepto_por_letra''),
                           (''letra_concepto'', PStr [ascii_upper c])]
        | None \<Rightarrow>
           (case numero_match (strip (lower pregunta)) of
              Some g \<Rightarrow> JDict [(''accion'', PStr ''estado_actual_por_numero''),
                               (''numero_estacion'', PInt (int_of_digits g))]
            | None \<Rightarrow>
               (case gemini pregunta of
                  Some j \<Rightarrow> j
                | None \<Rightarrow> JDict [(''accion'', PStr ''pregunta_abierta''),
                                 (''pregunta_original'', PStr pregunta)]))))"

section \<open>Response composition (gemini\_service.py)\<close>

text \<open>\<^verbatim>\<open>intent.get(key, default)\<close> and the truth value of a Python value.\<close>

definition dict_get :: "pydict \<Rightarrow> string \<Rightarrow> pyval \<Rightarrow> pyval" where
  "dict_get d k dflt = (case map_of d k of None \<Rightarrow> dflt | Some v \<Rightarrow> v)"

fun truthy :: "pyval \<Rightarrow> bool" where
  "truthy PNone = False"
| "truthy (PInt n) = (n \<noteq> 0)"
| "truthy (PStr s) = (s \<noteq> [])"

text \<open>\<^verbatim>\<open>explicar_concepto\<close>: the reply is the entry of \<^verbatim>\<open>explicaciones\<close> for the
  lower-cased variable, or a text that names the variable.\<close>

datatype explicacion = Preguntame_cosas | Explicacion_de string | No_tengo_informacion string

definition explicaciones :: "string list" where
  "explicaciones =
     [''pm2.5'', ''pm1'', ''pm10'', ''humedad'', ''temperatura'', ''presi'' @ acute_o @ ''n'',
      ''ica'', ''precipitaci'' @ acute_o @ ''n'', ''viento'']"

definition explicar_concepto :: "string \<Rightarrow> explicacion" where
  "explicar_concepto variable =
     (if variable = [] then Preguntame_cosas
      else if lower variable \<in> set explicaciones then Explicacion_de (lower variable)
      else No_tengo_informacion variable)"

text \<open>\<^verbatim>\<open>interpretar_calidad_aire\<close>: the texts are numbered in the order of the source,
  0 to 5 for the index and 0 to 4 for PM2.5.\<close>

datatype interpretacion = Segun_ica nat | Segun_pm25 nat | Sin_datos_de_calidad

definition interpretar_calidad_aire :: "rat option \<Rightarrow> rat option \<Rightarrow> interpretacion" where
  "interpretar_calidad_aire ica pm25 =
     (case ica of
        Some x \<Rightarrow>
          Segun_ica (if x \<le> 50 then 0 else if x \<le> 100 then 1 else if x \<le> 150 then 2
                     else if x \<le> 200 then 3 else if x \<le> 300 then 4 else 5)
      | None \<Rightarrow>
         (case pm25 of
            Some y \<Rightarrow>
              Segun_pm25 (if y \<le> 12 then 0 else if y \<le> 35 then 1 else if y \<le> 55 then 2
                          else if y \<le> 150 then 3 else 4)
          | None \<Rightarrow> Sin_datos_de_calidad))"

datatype nubi =
    Saludo nat
  | No_hay_estaciones_disponibles
  | Estaciones_disponibles "string list"
  | No_pude_obtener_la_lista
  | Explicacion explicacion
  | Modo_educativo_activado
  | Informacion_del_sistema nat nat nat
  | No_pude_obtener_la_informacion_general
  | No_encontre_la_estacion string
  | No_hay_datos_recientes string
  | Estado_de_estacion string "(string \<times> rat) list" instant interpretacion
  | No_pude_obtener_los_datos_de pyval
  | Numero_fuera_de_rango nat
  | Estado_por_numero string "(string \<times> rat) list" instant interpretacion
  | No_pude_obtener_los_datos_de_la_estacion_numero pyval
  | Concepto_por_letra explicacion
  | Letra_fuera_de_rango
  | Series_historicas pyval pyval
  | Respuesta_a_pregunta_abierta string
  | No_entendi_muy_bien
  | Ocurrio_un_error

text \<open>The fields of \<^verbatim>\<open>GeminiChatService\<close> that \<^verbatim>\<open>procesar_pregunta\<close> reads and
  writes; the table of its \<^verbatim>\<open>chatbot_service\<close> is a separate argument.\<close>

record service =
  has_gemini :: bool
  last_menu_shown :: "menu option"

definition listar_estaciones :: "dataframe \<Rightarrow> nubi" where
  "listar_estaciones df =
     (case get_complete_data_for_chatbot df of
        Inl e \<Rightarrow> No_pude_obtener_la_lista
      | Inr complete_data \<Rightarrow>
          if cd_stations complete_data = [] then No_hay_estaciones_disponibles
          else Estaciones_disponibles (map ss_station_name (cd_stations complete_data)))"

definition informacion_general :: "dataframe \<Rightarrow> nubi" where
  "informacion_general df =
     (case get_complete_data_for_chatbot df of
        Inl e \<Rightarrow> No_pude_obtener_la_informacion_general
      | Inr complete_data \<Rightarrow>
          Informacion_del_sistema (length (cd_stations complete_data)) (cd_total_records complete_data)
            (cd_total_days complete_data))"

text \<open>The branch \<^verbatim>\<open>estado_actual\<close>: the first station whose lower-cased name contains
  the lower-cased text. It assigns nothing to \<^verbatim>\<open>last_menu_shown\<close>.\<close>

definition estado_actual :: "dataframe \<Rightarrow> pyval \<Rightarrow> nubi" where
  "estado_actual df estacion =
     (case get_complete_data_for_chatbot df of
        Inl e \<Rightarrow> No_pude_obtener_los_datos_de estacion
      | Inr complete_data \<Rightarrow>
         (case estacion of
            PStr name \<Rightarrow>
             (case List.find (\<lambda>est. contains (lower (ss_station_name est)) (lower name))
                     (cd_stations complete_data) of
                None \<Rightarrow> No_encontre_la_estacion name
              | Some est \<Rightarrow>
                  if latest_measurements est = [] then No_hay_datos_recientes (ss_station_name est)
                  else Estado_de_estacion (ss_station_name est) (latest_measurements est)
                         (latest_timestamp est)
                         (interpretar_calidad_aire (map_of (latest_measurements est) ''ica'')
                            (map_of (latest_measurements est) ''pm_2_5'')))
          | PInt n \<Rightarrow> No_pude_obtener_los_datos_de estacion
          | PNone \<Rightarrow> No_pude_obtener_los_datos_de estacion))"

text \<open>The branch \<^verbatim>\<open>estado_actual_por_numero\<close>: the range check, then the reset of the
  context, then the station at position \<open>numero - 1\<close>.\<close>

definition estado_actual_por_numero :: "dataframe \<Rightarrow> service \<Rightarrow> pyval \<Rightarrow> nubi \<times> service" where
  "estado_actual_por_numero df svc numero =
     (case get_complete_data_for_chatbot df of
        Inl e \<Rightarrow> (No_pude_obtener_los_datos_de_la_estacion_numero numero, svc)
      | Inr complete_data \<Rightarrow>
         (case numero of
            PInt n \<Rightarrow>
              if n < 1 \<or> int (length (cd_stations complete_data)) < n
              then (Numero_fuera_de_rango (length (cd_stations complete_data)), svc)
              else
               (case py_index (cd_stations complete_data) (n - 1) of
                  Inl e \<Rightarrow> (No_pude_obtener_los_datos_de_la_estacion_numero numero,
                            svc\<lparr>last_menu_shown := None\<rparr>)
                | Inr est \<Rightarrow>
                    (if latest_measurements est = []
                     then No_hay_datos_recientes (ss_station_name est)
                     else Estado_por_numero (ss_station_name est) (latest_measurements est)
                            (latest_timestamp est)
                            (interpretar_calidad_aire (map_of (latest_measurements est) ''ica'')
                               (map_of (latest_measurements est) ''pm_2_5'')),
                     svc\<lparr>last_menu_shown := None\<rparr>))
          | PStr t \<Rightarrow> (No_pude_obtener_los_datos_de_la_estacion_numero numero, svc)
          | PNone \<Rightarrow> (No_pude_obtener_los_datos_de_la_estacion_numero numero, svc)))"

definition conceptos :: "(string \<times> string) list" where
  "conceptos =
     [(''A'', ''pm2.5''), (''B'', ''humedad''), (''C'', ''presi'' @ acute_o @ ''n''),
      (''D'', ''ica''), (''E'', ''precipitaci'' @ acute_o @ ''n''), (''F'', ''viento'')]"

definition concepto_por_letra :: "service \<Rightarrow> pyval \<Rightarrow> nubi \<times> service" where
  "concepto_por_letra svc letra =
     (case letra of
        PStr l \<Rightarrow>
         (case map_of conceptos l of
            Some concepto \<Rightarrow>
              (Concepto_por_letra (explicar_concepto concepto), svc\<lparr>last_menu_shown := None\<rparr>)
          | None \<Rightarrow> (Letra_fuera_de_rango, svc))
      | PInt n \<Rightarrow> (Letra_fuera_de_rango, svc)
      | PNone \<Rightarrow> (Letra_fuera_de_rango, svc))"

text \<open>
  The body of \<^verbatim>\<open>procesar_pregunta\<close> for an intent that is a dictionary. \<open>rnd\<close> is the
  draw of \<^verbatim>\<open>random.choice\<close>. The reply to an open question (the relevance check, the
  completion call and the canned answers behind it, none of which assigns
  \<^verbatim>\<open>last_menu_shown\<close>) is one constructor that carries the question.
\<close>

definition componer :: "nat \<Rightarrow> dataframe \<Rightarrow> service \<Rightarrow> string \<Rightarrow> pydict \<Rightarrow> nubi \<times> service" where
  "componer rnd df svc pregunta intent =
     (if dict_get intent ''accion'' (PStr ''general'') = PStr ''saludo''
        then (Saludo (rnd mod 3), svc\<lparr>last_menu_shown := None\<rparr>)
      else if dict_get intent ''accion'' (PStr ''general'') = PStr ''listar'' \<or> lower pregunta = ''a''
        then (listar_estaciones df, svc\<lparr>last_menu_shown := Some Estaciones\<rparr>)
      else if dict_get intent ''accion'' (PStr ''general'') = PStr ''concepto''
        then (case dict_get intent ''variable'' PNone of
                PStr v \<Rightarrow>
                  if v \<noteq> [] then (Explicacion (explicar_concepto v), svc)
                  else (Modo_educativo_activado, svc\<lparr>last_menu_shown := Some Conceptos\<rparr>)
              | PInt n \<Rightarrow>
                  if n \<noteq> 0 then (Ocurrio_un_error, svc)
                  else (Modo_educativo_activado, svc\<lparr>last_menu_shown := Some Conceptos\<rparr>)
              | PNone \<Rightarrow> (Modo_educativo_activado, svc\<lparr>last_menu_shown := Some Conceptos\<rparr>))
      else if dict_get intent ''accion'' (PStr ''general'') = PStr ''general''
        then (informacion_general df, svc)
      else if dict_get intent ''accion'' (PStr ''general'') = PStr ''estado_actual''
              \<and> truthy (dict_get intent ''estacion'' PNone)
        then (estado_actual df (dict_get intent ''estacion'' PNone), svc)
      else if dict_get intent ''accion'' (PStr ''general'') = PStr ''estado_actual_por_numero''
        then estado_actual_por_numero df svc (dict_get intent ''numero_estacion'' (PInt 0))
      else if dict_get intent ''accion'' (PStr ''general'') = PStr ''concepto_por_letra''
        then concepto_por_letra svc (dict_get intent ''letra_concepto'' (PStr []))
      else if dict_get intent ''accion'' (PStr ''general'') = PStr ''serie''
        then (Series_historicas (dict_get intent ''variable'' PNone)
                (dict_get intent ''estacion'' PNone), svc)
      else if dict_get intent ''accion'' (PStr ''general'') = PStr ''pregunta_abierta''
        then (case dict_get intent ''pregunta_original'' (PStr pregunta) of
                PStr original \<Rightarrow> (Respuesta_a_pregunta_abierta original, svc)
              | PInt n \<Rightarrow> (Respuesta_a_pregunta_abierta pregunta, svc)
              | PNone \<Rightarrow> (Respuesta_a_pregunta_abierta pregunta, svc))
      else if 1 < length (split_ws pregunta)
        then (Respuesta_a_pregunta_abierta pregunta, svc)
      else (No_entendi_muy_bien, svc))"

definition procesar_pregunta ::
  "(string \<Rightarrow> jsonval option) \<Rightarrow> nat \<Rightarrow> dataframe \<Rightarrow> service \<Rightarrow> string \<Rightarrow> nubi \<times> service" where
  "procesar_pregunta gemini rnd df svc pregunta =
     (case interpretar_pregunta gemini (has_gemini svc) (last_menu_shown svc) pregunta of
        JNonDict \<Rightarrow> (Ocurrio_un_error, svc)
      | JDict intent \<Rightarrow> componer rnd df svc pregunta intent)"

text \<open>The replies that complete a greeting, a station chosen by number or a concept
  chosen by letter, and the reply that completes a station found by name.\<close>

fun accion_terminal :: "nubi \<Rightarrow> bool" where
  "accion_terminal (Saludo k) = True"
| "accion_terminal (Estado_por_numero name values t i) = True"
| "accion_terminal (Concepto_por_letra e) = True"
| "accion_terminal r = False"

fun estado_por_nombre :: "nubi \<Rightarrow> bool" where
  "estado_por_nombre (Estado_de_estacion name values t i) = True"
| "estado_por_nombre r = False"

section \<open>An example table\<close>

text \<open>Three readings of two stations, used to run the functions above: station 2 has
  two readings on 1 May 2024, under two equipment labels and without humidity; station 1
  has one reading on 2 May.\<close>

definition lectura ::
  "int \<Rightarrow> string \<Rightarrow> string option \<Rightarrow> instant \<Rightarrow> (string \<times> rat) list \<Rightarrow> reading" where
  "lectura sid name label t values =
     \<lparr>timestamp = t, station_id = sid, station_name = name, tipo_equipo = label,
      lat = 7, lon = - 73, measures = map_of values, flags = (\<lambda>col. None)\<rparr>"

definition df_ejemplo :: dataframe where
  "df_ejemplo =
     \<lparr>columns = [''temp'', ''humedad'', ''ica'', ''pm_2_5''],
      rows =
        [lectura 2 ''Halley UIS'' (Some ''AIR'') ((2024, 5, 1), 3600000000000)
           [(''temp'', 25), (''ica'', 40)],
         lectura 2 ''Halley UIS'' (Some ''VUE+AIR'') ((2024, 5, 1), 7200000000000)
           [(''temp'', 53 / 2), (''ica'', 60)],
         lectura 1 ''Colegio'' (Some ''PRO'') ((2024, 5, 2), 0)
           [(''temp'', 21), (''humedad'', 80)]]\<rparr>"


text \<open>A station with a row labelled AIR, a row without label and a row labelled
  PRO, in that order.\<close>

definition df_pro_air :: dataframe where
  "df_pro_air =
     \<lparr>columns = [''temp''],
      rows =
        [lectura 3 ''Bosque'' (Some ''AIR'') ((2024, 5, 1), 0) [(''temp'', 20)],
         lectura 3 ''Bosque'' None ((2024, 5, 1), 60000000000) [(''temp'', 21)],
         lectura 3 ''Bosque'' (Some ''PRO'') ((2024, 5, 1), 120000000000) [(''temp'', 22)]]\<rparr>"

text \<open>A file of three rows, as \<^verbatim>\<open>read_csv\<close> returns it, and a stand-in for
  \<^verbatim>\<open>pandas.to_datetime\<close>.\<close>

definition raw_ejemplo :: raw_frame where
  "raw_ejemplo =
     \<lparr>raw_columns = [''timestamp'', ''temp'', ''temp_imputed''],
      raw_rows =
        [(\<lambda>col. NaN)(''timestamp'' := Str ''2024-05-01 01:00'', ''temp'' := Num 25,
                       ''temp_imputed'' := Str ''TRUE''),
         (\<lambda>col. NaN)(''timestamp'' := Str ''2024-05-01 02:00'', ''temp'' := Str ''NA''),
         (\<lambda>col. NaN)(''timestamp'' := Str ''2024-05-01 03:00'', ''temp'' := Num 26,
                       ''temp_imputed'' := Str ''yes'')]\<rparr>"

definition reloj :: "string \<Rightarrow> instant option" where
  "reloj s = Some ((2024, 5, 1), 0)"

text \<open>A query for both stations, limited to two records.\<close>

definition consulta_ejemplo :: chatbot_query where
  "consulta_ejemplo =
     \<lparr>q_stations = Some [1, 2], q_variables = Some [''temp''], q_date_range = None,
      include_raw_data = True, max_records = 2\<rparr>"

section \<open>Properties\<close>

lemma contains_subset: "contains s p \<Longrightarrow> set p \<subseteq> set s"
proof (induction s)
  case Nil
  then show ?case by simp
next
  case (Cons c cs)
  from Cons.prems have "startswith (c # cs) p \<or> contains cs p" by simp
  then show ?case
  proof
    assume "startswith (c # cs) p"
    then have "p = take (length p) (c # cs)" by (simp add: startswith_def)
    then have "set p \<subseteq> set (c # cs)" by (metis set_take_subset)
    then show ?thesis .
  next
    assume "contains cs p"
    then show ?thesis using Cons.IH by auto
  qed
qed

lemma digits_contain_no_word:
  assumes "list_all is_digit q" and "x \<in> set p" and "\<not> is_digit x"
  shows "\<not> contains q p"
proof
  assume "contains q p"
  then have "x \<in> set q" using contains_subset assms(2) by blast
  then show False using assms(1,3) by (simp add: list_all_iff)
qed

subsection \<open>A bare number after the station list\<close>

lemma startswith_contains: "startswith s p \<Longrightarrow> contains s p"
  by (cases s) (auto simp: startswith_def)

lemma digits_letra: "list_all is_digit q \<Longrightarrow> letra_match q = None"
  by (induction q rule: letra_match.induct) (auto simp: is_digit_def is_af_def)

lemma digits_no_word:
  "list_all is_digit q \<Longrightarrow> p \<noteq> [] \<Longrightarrow> \<not> is_digit (hd p) \<Longrightarrow> \<not> contains q p"
  using digits_contain_no_word [of q "hd p" p] by simp

lemma digits_no_prefix:
  "list_all is_digit q \<Longrightarrow> p \<noteq> [] \<Longrightarrow> \<not> is_digit (hd p) \<Longrightarrow> \<not> startswith q p"
  using digits_no_word startswith_contains by blast

text \<open>
  Claim C6, as the code has it. A message whose lower-cased, trimmed form is a non-empty
  string of digits resolves, whatever menu was shown last, to
  \<^verbatim>\<open>estado_actual_por_numero\<close> with the number when an AI credential is configured, and
  to \<^verbatim>\<open>estado_actual\<close> with the raw text as the station name when none is: the test
  \<^verbatim>\<open>if not self.has_gemini\<close> stands before the test for a number. In neither case
  does it resolve to an open question.
\<close>

theorem bare_number_resolution:
  assumes q: "strip (lower pregunta) = q" and ne: "q \<noteq> []" and dg: "list_all is_digit q"
  shows "interpretar_pregunta gemini credential context pregunta =
     (if credential
      then JDict [(''accion'', PStr ''estado_actual_por_numero''),
                  (''numero_estacion'', PInt (int_of_digits q))]
      else JDict [(''accion'', PStr ''estado_actual''), (''estacion'', PStr pregunta)])"
proof -
  have p: "pregunta \<noteq> []" using q ne by (auto simp: strip_def)
  have s: "\<not> list_ex (contains q) saludos"
    by (simp add: saludos_def digits_no_word [OF dg] is_digit_def code_def)
  have c: "\<not> list_ex (contains q) preguntas_complejas"
    by (simp add: preguntas_complejas_def digits_no_word [OF dg] is_digit_def code_def)
  have a: "q \<noteq> ''a''" "q \<noteq> ''b''"
    using dg by (auto simp: is_digit_def code_def)
  have w: "\<not> startswith q que_es_acento" "\<not> startswith q ''que es ''"
    by (simp_all add: que_es_acento_def digits_no_prefix [OF dg] is_digit_def code_def)
  have n: "\<not> contains q cuantas_estaciones_acento" "\<not> contains q ''cuantas estaciones''"
    by (simp_all add: cuantas_estaciones_acento_def digits_no_word [OF dg] is_digit_def code_def)
  have l: "letra_match q = None" by (rule digits_letra [OF dg])
  have m: "numero_match q = Some q" using ne dg by (simp add: numero_match_def)
  show ?thesis
    unfolding interpretar_pregunta_def q using p s c a w n l m by simp
qed

theorem bare_number_resolution_witness:
  "interpretar_pregunta (\<lambda>_. None) True (Some Estaciones) '' 12 '' =
     JDict [(''accion'', PStr ''estado_actual_por_numero''), (''numero_estacion'', PInt 12)]"
  using bare_number_resolution [of "'' 12 ''" "''12''" "\<lambda>_. None" True "Some Estaciones"]
  by (simp add: strip_def is_space_def is_digit_def code_def ascii_lower_def int_of_digits_def
      digit_val_def)

text \<open>The claim as stated fails without a credential: after the station list, the
  message \<^verbatim>\<open>3\<close> resolves to a look-up of a station named \<^verbatim>\<open>3\<close>.\<close>

theorem bare_number_without_credential:
  "interpretar_pregunta (\<lambda>_. None) False (Some Estaciones) ''3'' =
     JDict [(''accion'', PStr ''estado_actual''), (''estacion'', PStr ''3'')]
   \<and> interpretar_pregunta (\<lambda>_. None) False (Some Estaciones) ''3'' \<noteq>
     JDict [(''accion'', PStr ''estado_actual_por_numero''), (''numero_estacion'', PInt 3)]"
  by (simp add: interpretar_pregunta_def strip_def is_space_def is_digit_def code_def
      ascii_lower_def saludos_def preguntas_complejas_def startswith_def que_es_acento_def
      cuantas_estaciones_acento_def)

subsection \<open>Daily averages\<close>



lemma in_day_date: "in_day d r \<Longrightarrow> fst (timestamp r) = d"
  by (cases "timestamp r") (auto simp: in_day_def start_date_def end_date_def)

lemma strptime_3_may: "strptime ''2024-05-03'' = Inr (2024, 5, 3)"
  by (simp add: check_date_def is_digit_def code_def int_of_digits_def digit_val_def
      days_in_month_def)


text \<open>
  Claim C1. When the date parses and no reading of the table has its time stamp on that
  UTC calendar day, \<^verbatim>\<open>get_all_stations_averages\<close> returns (it does not raise) the
  result with \<^verbatim>\<open>stations_with_data = 0\<close> and an empty list of stations.
\<close>

theorem no_readings_empty_result:
  assumes "strptime date = Inr d"
      and "\<forall>r\<in>set (rows df). fst (timestamp r) \<noteq> d"
  shows "get_all_stations_averages df date variables =
           Inr \<lparr>res_date = date, total_stations = 0, stations_with_data = 0,
                res_variables = None, stations = []\<rparr>"
proof -
  have "filter (in_day d) (rows df) = []"
    unfolding filter_empty_conv using assms(2) in_day_date by blast
  then show ?thesis using assms(1) by (simp add: get_all_stations_averages_def)
qed

theorem no_readings_empty_result_witness:
  "get_all_stations_averages df_ejemplo ''2024-05-03'' None =
     Inr \<lparr>res_date = ''2024-05-03'', total_stations = 0, stations_with_data = 0,
          res_variables = None, stations = []\<rparr>"
proof -
  have h: "\<forall>r\<in>set (rows df_ejemplo). fst (timestamp r) \<noteq> (2024, 5, 3)"
    by (simp add: df_ejemplo_def lectura_def)
  show ?thesis by (rule no_readings_empty_result [OF strptime_3_may h])
qed







subsection \<open>Station summary\<close>

lemma distinct_unique: "distinct (unique xs)"
  by (simp add: unique_def)

lemma set_unique: "set (unique xs) = set xs"
  by (simp add: unique_def)

lemma group_first_id: "e \<in> set (group_first rs sid) \<Longrightarrow> sum_station_id e = sid"
  by (auto simp: group_first_def split: list.splits)

lemma filter_concat_groups:
  assumes "distinct ids" and "s \<in> set ids"
      and "\<And>sid e. e \<in> set (g sid) \<Longrightarrow> sum_station_id e = sid"
  shows "filter (\<lambda>e. sum_station_id e = s) (concat (map g ids)) = g s"
  using assms(1,2)
proof (induction ids)
  case Nil
  then show ?case by simp
next
  case (Cons a ids)
  have other: "filter (\<lambda>e. sum_station_id e = s) (g sid) = []" if "sid \<noteq> s" for sid
    using that assms(3) by (auto simp: filter_empty_conv)
  have same: "filter (\<lambda>e. sum_station_id e = s) (g s) = g s"
    using assms(3) by (auto simp: filter_id_conv)
  show ?case
  proof (cases "a = s")
    case True
    with Cons.prems have "s \<notin> set ids" by simp
    then have "filter (\<lambda>e. sum_station_id e = s) (concat (map g ids)) = []"
      using other by (induction ids) auto
    with True same show ?thesis by simp
  next
    case False
    with Cons show ?thesis using other by simp
  qed
qed

lemma priority_order_least: "1 \<le> priority_order l"
  by (simp add: priority_order_def)

lemma priority_order_combined: "priority_order l = 1 \<longleftrightarrow> l = Some ''VUE+AIR''"
  by (simp add: priority_order_def)

lemma station_group_sorted:
  "filter (\<lambda>r. station_id r = s) (df_temp df) =
     sort_key (\<lambda>r. (station_id r, priority_order (tipo_equipo r)))
       (filter (\<lambda>r. station_id r = s) (rows df))"
  by (simp add: df_temp_def filter_sort)

lemma head_of_group:
  assumes "filter (\<lambda>r. station_id r = s) (df_temp df) = h # t"
      and "r \<in> set (rows df)" and "station_id r = s"
  shows "station_id h = s \<and> priority_order (tipo_equipo h) \<le> priority_order (tipo_equipo r)"
proof -
  let ?key = "\<lambda>r. (station_id r, priority_order (tipo_equipo r))"
  let ?g = "filter (\<lambda>r. station_id r = s) (rows df)"
  have eq: "sort_key ?key ?g = h # t" using assms(1) station_group_sorted by simp
  have "sorted (map ?key (sort_key ?key ?g))" by (rule sorted_sort_key)
  with eq have le: "\<forall>y\<in>set (h # t). ?key h \<le> ?key y" by auto
  have "set (h # t) = set ?g" using eq by (metis set_sort)
  then have "r \<in> set (h # t)" and hs: "station_id h = s" using assms(2,3) by auto
  with le have "?key h \<le> ?key r" by blast
  with hs assms(3) show ?thesis by (auto simp: less_eq_prod_def)
qed

lemma priority_order_most: "priority_order l \<le> 999"
  by (simp add: priority_order_def)

lemma group_label_priority:
  assumes ht: "filter (\<lambda>r. station_id r = s) (df_temp df) = h # t"
  shows "priority_order (first_valid (map tipo_equipo (h # t))) \<le> priority_order (tipo_equipo h)"
proof (cases "tipo_equipo h")
  case (Some l)
  then show ?thesis by simp
next
  case None
  then have "priority_order (tipo_equipo h) = 999" by (simp add: priority_order_def)
  then show ?thesis using priority_order_most by simp
qed

lemma first_valid_Some: "first_valid xs = Some l \<Longrightarrow> Some l \<in> set xs"
  by (induction xs rule: first_valid.induct) auto

lemma first_valid_None: "first_valid xs = None \<Longrightarrow> x \<in> set xs \<Longrightarrow> x = None"
  by (induction xs rule: first_valid.induct) auto

lemma group_rows:
  assumes "filter (\<lambda>r. station_id r = s) (df_temp df) = h # t"
  shows "set (h # t) = {r \<in> set (rows df). station_id r = s}"
proof -
  have "set (filter (\<lambda>r. station_id r = s) (df_temp df)) = {r \<in> set (rows df). station_id r = s}"
    by (simp add: df_temp_def)
  with assms show ?thesis by simp
qed

lemma sort_key_same_key: "\<forall>x\<in>set xs. f x = k \<Longrightarrow> sort_key f xs = xs"
  by (induction xs) (auto simp: insort_is_Cons)

lemma group_unranked:
  assumes "\<forall>r'\<in>set (rows df). station_id r' = s \<longrightarrow> priority_order (tipo_equipo r') = 999"
  shows "filter (\<lambda>r. station_id r = s) (df_temp df) = filter (\<lambda>r. station_id r = s) (rows df)"
proof -
  have "\<forall>x\<in>set (filter (\<lambda>r. station_id r = s) (rows df)).
          (station_id x, priority_order (tipo_equipo x)) = (s, 999)"
    using assms by auto
  then show ?thesis
    unfolding station_group_sorted by (rule sort_key_same_key)
qed

text \<open>
  Claim C3. Every station of the table is reported exactly once by
  \<^verbatim>\<open>get_stations_summary\<close>. The label it is reported with is the label of one of
  the rows of the station (it is absent only when every row of the station has no
  label), and it ranks, in the order VUE+AIR (1), PRO (2), AIR (3), any other (999), at
  least as high as the label of every row of the station. So a station with a row
  labelled VUE+AIR is reported as VUE+AIR, whatever other labels it has; a station with
  a row labelled PRO and none labelled VUE+AIR is reported as PRO; a station with a row
  labelled AIR and none labelled VUE+AIR or PRO is reported as AIR; and a station none
  of whose rows is labelled VUE+AIR, PRO or AIR is reported with the first label that is
  present among its rows, in the order of the file.
\<close>

theorem summary_prefers_combined:
  assumes "r \<in> set (rows df)"
  shows "\<exists>e. filter (\<lambda>e. sum_station_id e = station_id r) (sum_stations (get_stations_summary df)) = [e]
             \<and> (\<forall>l. sum_tipo_equipo e = Some l \<longrightarrow>
                    (\<exists>r'\<in>set (rows df). station_id r' = station_id r \<and> tipo_equipo r' = Some l))
             \<and> (sum_tipo_equipo e = None \<longrightarrow>
                    (\<forall>r'\<in>set (rows df). station_id r' = station_id r \<longrightarrow> tipo_equipo r' = None))
             \<and> (\<forall>r'\<in>set (rows df). station_id r' = station_id r \<longrightarrow>
                    priority_order (sum_tipo_equipo e) \<le> priority_order (tipo_equipo r'))
             \<and> (tipo_equipo r = Some ''VUE+AIR'' \<longrightarrow> sum_tipo_equipo e = Some ''VUE+AIR'')
             \<and> (tipo_equipo r = Some ''PRO''
                  \<and> (\<forall>r'\<in>set (rows df). station_id r' = station_id r \<longrightarrow>
                         tipo_equipo r' \<noteq> Some ''VUE+AIR'')
                  \<longrightarrow> sum_tipo_equipo e = Some ''PRO'')
             \<and> (tipo_equipo r = Some ''AIR''
                  \<and> (\<forall>r'\<in>set (rows df). station_id r' = station_id r \<longrightarrow>
                         tipo_equipo r' \<noteq> Some ''VUE+AIR'' \<and> tipo_equipo r' \<noteq> Some ''PRO'')
                  \<longrightarrow> sum_tipo_equipo e = Some ''AIR'')
             \<and> ((\<forall>r'\<in>set (rows df). station_id r' = station_id r \<longrightarrow>
                      priority_order (tipo_equipo r') = 999)
                  \<longrightarrow> sum_tipo_equipo e =
                        first_valid (map tipo_equipo
                          (filter (\<lambda>r'. station_id r' = station_id r) (rows df))))"
proof -
  define s where "s = station_id r"
  have "r \<in> set (filter (\<lambda>r. station_id r = s) (df_temp df))"
    using assms by (simp add: df_temp_def s_def)
  then obtain h t where ht: "filter (\<lambda>r. station_id r = s) (df_temp df) = h # t"
    by (cases "filter (\<lambda>r. station_id r = s) (df_temp df)") auto
  define e where "e = \<lparr>sum_station_id = s, sum_station_name = station_name h, sum_lat = lat h,
        sum_lon = lon h, sum_tipo_equipo = first_valid (map tipo_equipo (h # t))\<rparr>"
  have lab: "sum_tipo_equipo e = first_valid (map tipo_equipo (h # t))" by (simp add: e_def)
  have g: "group_first (df_temp df) s = [e]"
    using ht by (simp add: group_first_def e_def)
  have ids: "distinct (sort (unique (map station_id (df_temp df))))"
    by (simp add: distinct_unique)
  have mem: "s \<in> set (sort (unique (map station_id (df_temp df))))"
    using assms by (simp add: set_unique df_temp_def s_def)
  have "filter (\<lambda>e. sum_station_id e = s) (stations_list df) = group_first (df_temp df) s"
    unfolding stations_list_def
    by (rule filter_concat_groups [OF ids mem]) (rule group_first_id)
  with g have once: "filter (\<lambda>e. sum_station_id e = station_id r)
      (sum_stations (get_stations_summary df)) = [e]"
    by (simp add: get_stations_summary_def s_def)
  have of_row: "\<exists>r'\<in>set (rows df). station_id r' = station_id r \<and> tipo_equipo r' = Some l"
    if "sum_tipo_equipo e = Some l" for l
  proof -
    from that lab have "Some l \<in> set (map tipo_equipo (h # t))"
      using first_valid_Some by metis
    then obtain r' where "r' \<in> set (h # t)" "tipo_equipo r' = Some l"
      unfolding set_map by (metis imageE)
    with group_rows [OF ht] show ?thesis by (auto simp: s_def)
  qed
  have none: "tipo_equipo r' = None"
    if "sum_tipo_equipo e = None" "r' \<in> set (rows df)" "station_id r' = station_id r" for r'
  proof -
    from that(2,3) group_rows [OF ht] have "tipo_equipo r' \<in> set (map tipo_equipo (h # t))"
      by (auto simp: s_def)
    with that(1) lab show ?thesis using first_valid_None by metis
  qed
  have rank: "priority_order (sum_tipo_equipo e) \<le> priority_order (tipo_equipo r')"
    if "r' \<in> set (rows df)" "station_id r' = station_id r" for r'
  proof -
    from head_of_group [OF ht that(1)] that(2) s_def
    have "priority_order (tipo_equipo h) \<le> priority_order (tipo_equipo r')" by simp
    with group_label_priority [OF ht] lab show ?thesis by simp
  qed
  have combined: "sum_tipo_equipo e = Some ''VUE+AIR''" if "tipo_equipo r = Some ''VUE+AIR''"
  proof -
    from that rank [OF assms] have "priority_order (sum_tipo_equipo e) \<le> 1"
      by (simp add: priority_order_def)
    with priority_order_least [of "sum_tipo_equipo e"]
    have "priority_order (sum_tipo_equipo e) = 1" by simp
    then show ?thesis using priority_order_combined by blast
  qed
  have pro: "sum_tipo_equipo e = Some ''PRO''"
    if "tipo_equipo r = Some ''PRO''"
      "\<forall>r'\<in>set (rows df). station_id r' = station_id r \<longrightarrow> tipo_equipo r' \<noteq> Some ''VUE+AIR''"
  proof -
    from that(1) rank [OF assms] have le: "priority_order (sum_tipo_equipo e) \<le> 2"
      by (simp add: priority_order_def)
    have "sum_tipo_equipo e \<noteq> Some ''VUE+AIR''" using of_row that(2) by blast
    with le show ?thesis by (simp add: priority_order_def split: if_splits)
  qed
  have air: "sum_tipo_equipo e = Some ''AIR''"
    if "tipo_equipo r = Some ''AIR''"
      "\<forall>r'\<in>set (rows df). station_id r' = station_id r \<longrightarrow>
          tipo_equipo r' \<noteq> Some ''VUE+AIR'' \<and> tipo_equipo r' \<noteq> Some ''PRO''"
  proof -
    from that(1) rank [OF assms] have le: "priority_order (sum_tipo_equipo e) \<le> 3"
      by (simp add: priority_order_def)
    have "sum_tipo_equipo e \<noteq> Some ''VUE+AIR''" "sum_tipo_equipo e \<noteq> Some ''PRO''"
      using of_row that(2) by blast+
    with le show ?thesis by (simp add: priority_order_def split: if_splits)
  qed
  have unranked: "sum_tipo_equipo e =
      first_valid (map tipo_equipo (filter (\<lambda>r'. station_id r' = station_id r) (rows df)))"
    if "\<forall>r'\<in>set (rows df). station_id r' = station_id r \<longrightarrow>
          priority_order (tipo_equipo r') = 999"
  proof -
    from that have "filter (\<lambda>r. station_id r = s) (df_temp df)
        = filter (\<lambda>r. station_id r = s) (rows df)"
      unfolding s_def by (rule group_unranked)
    with ht have "filter (\<lambda>r'. station_id r' = station_id r) (rows df) = h # t"
      by (simp add: s_def)
    with lab show ?thesis by (simp only:)
  qed
  from once of_row none rank combined pro air unranked show ?thesis by blast
qed

theorem summary_prefers_combined_witness:
  "\<exists>e. filter (\<lambda>e. sum_station_id e = 2) (sum_stations (get_stations_summary df_ejemplo)) = [e]
       \<and> sum_tipo_equipo e = Some ''VUE+AIR''"
proof -
  let ?r = "lectura 2 ''Halley UIS'' (Some ''VUE+AIR'') ((2024, 5, 1), 7200000000000)
              [(''temp'', 53 / 2), (''ica'', 60)]"
  have r: "?r \<in> set (rows df_ejemplo)" by (simp add: df_ejemplo_def)
  have l: "tipo_equipo ?r = Some ''VUE+AIR''" "station_id ?r = 2" by (simp_all add: lectura_def)
  from summary_prefers_combined [OF r] l show ?thesis by auto
qed

lemma ejemplo_summary:
  "sum_stations (get_stations_summary df_ejemplo) =
     [\<lparr>sum_station_id = 1, sum_station_name = ''Colegio'', sum_lat = 7, sum_lon = - 73,
       sum_tipo_equipo = Some ''PRO''\<rparr>,
      \<lparr>sum_station_id = 2, sum_station_name = ''Halley UIS'', sum_lat = 7, sum_lon = - 73,
       sum_tipo_equipo = Some ''VUE+AIR''\<rparr>]"
  by (simp add: get_stations_summary_def stations_list_def df_temp_def df_ejemplo_def lectura_def
      priority_order_def unique_def group_first_def sort_key_def insort_key_def)

lemma ejemplo_pro_air:
  "sum_stations (get_stations_summary df_pro_air) =
     [\<lparr>sum_station_id = 3, sum_station_name = ''Bosque'', sum_lat = 7, sum_lon = - 73,
       sum_tipo_equipo = Some ''PRO''\<rparr>]"
  by (simp add: get_stations_summary_def stations_list_def df_temp_def df_pro_air_def lectura_def
      priority_order_def unique_def group_first_def sort_key_def insort_key_def)

subsection \<open>Imputation flags\<close>

lemma load_row_flag:
  assumes "load_row to_datetime r = Inr r'" and "endswith col ''_imputed''"
  shows "r' col = map_imputed (replace_na (r col))"
proof -
  have "col \<noteq> ''timestamp''" using assms(2) by (auto simp: endswith_def startswith_def)
  then show ?thesis using assms by (auto simp: load_row_def split: sum.splits)
qed

lemma sequence_set:
  "sequence (map f xs) = Inr ys \<Longrightarrow> y \<in> set ys \<Longrightarrow> \<exists>x\<in>set xs. f x = Inr y"
  by (induction xs arbitrary: ys) (auto split: sum.splits)

text \<open>
  Claim C4, as the code has it. After \<^verbatim>\<open>_load_data\<close>, the cell of a row in a column
  whose name ends in \<^verbatim>\<open>_imputed\<close> is true when the cell read from the file was the
  string \<^verbatim>\<open>TRUE\<close>, false when it was the string \<^verbatim>\<open>FALSE\<close>, and absent in every
  other case. The absent flags become false where a row is validated as
  \<^verbatim>\<open>StationData\<close>: \<^verbatim>\<open>validate_imputed_fields\<close> of the loaded cell is true exactly
  for \<^verbatim>\<open>TRUE\<close>.
\<close>

theorem imputation_flags_after_load:
  assumes "load_data to_datetime df = Inr df'"
      and "r' \<in> set (raw_rows df')"
      and "endswith col ''_imputed''"
  shows "\<exists>r\<in>set (raw_rows df).
           r' col = (if r col = Str ''TRUE'' then Flag True
                     else if r col = Str ''FALSE'' then Flag False else NaN)
         \<and> validate_imputed_fields (r' col) = (r col = Str ''TRUE'')"
proof -
  from assms(1) obtain rs where seq: "sequence (map (load_row to_datetime) (raw_rows df)) = Inr rs"
    and df': "df' = df\<lparr>raw_rows := rs\<rparr>"
    by (auto simp: load_data_def split: if_splits sum.splits)
  with assms(2) have "r' \<in> set rs" by simp
  from sequence_set [OF seq this] obtain r where
    r: "r \<in> set (raw_rows df)" "load_row to_datetime r = Inr r'" by blast
  from load_row_flag [OF r(2) assms(3)]
  have "r' col = map_imputed (replace_na (r col))" .
  then have "r' col = (if r col = Str ''TRUE'' then Flag True
                     else if r col = Str ''FALSE'' then Flag False else NaN)"
    by (auto simp: map_imputed_def replace_na_def)
  then have "r' col = (if r col = Str ''TRUE'' then Flag True
                     else if r col = Str ''FALSE'' then Flag False else NaN)
         \<and> validate_imputed_fields (r' col) = (r col = Str ''TRUE'')"
    by (auto simp: validate_imputed_fields_def)
  with r(1) show ?thesis by blast
qed


lemma endswith_temp_imputed: "endswith ''temp_imputed'' ''_imputed''"
  by (simp add: endswith_def startswith_def)

text \<open>The claim as stated fails: an absent flag and the flag \<^verbatim>\<open>yes\<close> are absent after
  the load, not false.\<close>

theorem absent_flag_stays_absent:
  "(case load_data reloj raw_ejemplo of
      Inl e \<Rightarrow> []
    | Inr df \<Rightarrow> map (\<lambda>r. r ''temp_imputed'') (raw_rows df)) = [Flag True, NaN, NaN]
   \<and> NaN \<noteq> Flag False"
  by (simp add: load_data_def load_row_def parse_timestamp_def raw_ejemplo_def reloj_def
      endswith_temp_imputed map_imputed_def replace_na_def)

theorem imputation_flags_after_load_witness:
  "\<exists>df' r'. load_data reloj raw_ejemplo = Inr df' \<and> r' \<in> set (raw_rows df')
      \<and> (r' ''temp_imputed'' = Flag True \<or> r' ''temp_imputed'' = Flag False
          \<or> r' ''temp_imputed'' = NaN)"
proof -
  have "\<exists>df'. load_data reloj raw_ejemplo = Inr df' \<and> raw_rows df' \<noteq> []"
    by (simp add: load_data_def load_row_def parse_timestamp_def raw_ejemplo_def reloj_def)
  then obtain df' r' where l: "load_data reloj raw_ejemplo = Inr df'"
    and r': "r' \<in> set (raw_rows df')"
    by (metis last_in_set)
  from imputation_flags_after_load [OF l r' endswith_temp_imputed]
  have "r' ''temp_imputed'' = Flag True \<or> r' ''temp_imputed'' = Flag False
          \<or> r' ''temp_imputed'' = NaN"
    by (auto split: if_splits)
  with l r' show ?thesis by blast
qed

subsection \<open>The phrase table before the completion service\<close>

lemma series_min_None: "series_min xs = None \<longleftrightarrow> xs = []"
  by (simp add: series_min_def split: list.splits)

lemma series_max_None: "series_max xs = None \<longleftrightarrow> xs = []"
  by (simp add: series_max_def split: list.splits)

lemma respuestas_heuristicas_empty:
  "rows df = [] \<Longrightarrow> respuestas_heuristicas df = Inl ValueError"
  by (simp add: respuestas_heuristicas_def series_min_def)

lemma respuestas_heuristicas_cuantas:
  assumes "rows df \<noteq> []"
  shows "\<exists>table. respuestas_heuristicas df = Inr table
           \<and> map_of table (''cu'' @ acute_a @ ''ntas estaciones hay'')
               = Some (Tenemos_estaciones (nunique (map station_id (rows df))))"
proof -
  obtain a b where "series_min (map timestamp (rows df)) = Some a"
    "series_max (map timestamp (rows df)) = Some b"
    using assms series_min_None [of "map timestamp (rows df)"]
      series_max_None [of "map timestamp (rows df)"] by auto
  then show ?thesis by (simp add: respuestas_heuristicas_def)
qed

text \<open>
  Claim C5, as the code has it. On a table with at least one reading the phrase table is
  built, it answers \<^verbatim>\<open>cuantas estaciones hay\<close> with the number of stations, and an
  input whose lower-cased, trimmed form is one of its keys is answered by
  \<^verbatim>\<open>responder_pregunta\<close> with the entry of that key, with or without an AI credential
  and without a call to the completion service. On a table without readings no call is
  made either.
\<close>

theorem phrase_answer_precedes_ai:
  "(rows df = [] \<longrightarrow> snd (responder_pregunta gemini credential df pregunta) = [])
   \<and> (rows df \<noteq> [] \<longrightarrow>
        (\<exists>table. respuestas_heuristicas df = Inr table
           \<and> map_of table (''cu'' @ acute_a @ ''ntas estaciones hay'')
               = Some (Tenemos_estaciones (nunique (map station_id (rows df))))
           \<and> (\<forall>respuesta. map_of table (strip (lower pregunta)) = Some respuesta
                 \<longrightarrow> responder_pregunta gemini credential df pregunta = (respuesta, []))))"
proof (intro conjI impI)
  assume "rows df = []"
  then show "snd (responder_pregunta gemini credential df pregunta) = []"
    by (simp add: responder_pregunta_def responder_heuristico_def respuestas_heuristicas_empty)
next
  assume "rows df \<noteq> []"
  from respuestas_heuristicas_cuantas [OF this] obtain table where
    t: "respuestas_heuristicas df = Inr table"
       "map_of table (''cu'' @ acute_a @ ''ntas estaciones hay'')
               = Some (Tenemos_estaciones (nunique (map station_id (rows df))))" by blast
  have "responder_pregunta gemini credential df pregunta = (respuesta, [])"
    if "map_of table (strip (lower pregunta)) = Some respuesta" for respuesta
    using that t(1) by (simp add: responder_pregunta_def responder_heuristico_def)
  with t show "\<exists>table. respuestas_heuristicas df = Inr table
           \<and> map_of table (''cu'' @ acute_a @ ''ntas estaciones hay'')
               = Some (Tenemos_estaciones (nunique (map station_id (rows df))))
           \<and> (\<forall>respuesta. map_of table (strip (lower pregunta)) = Some respuesta
                 \<longrightarrow> responder_pregunta gemini credential df pregunta = (respuesta, []))"
    by blast
qed

lemma lower_cuantas:
  "strip (lower ('' CU'' @ [CHR 0xC3, CHR 0x81] @ ''NTAS estaciones hay ''))
     = ''cu'' @ acute_a @ ''ntas estaciones hay''"
  by (simp add: strip_def is_space_def code_def ascii_lower_def latin1_upper_def set_bit5_def)

theorem phrase_answer_precedes_ai_witness:
  "responder_pregunta (\<lambda>q. Some ''respuesta'') True df_ejemplo
     ('' CU'' @ [CHR 0xC3, CHR 0x81] @ ''NTAS estaciones hay '') = (Tenemos_estaciones 2, [])"
proof -
  have ne: "rows df_ejemplo \<noteq> []" by (simp add: df_ejemplo_def)
  have n: "nunique (map station_id (rows df_ejemplo)) = 2"
    by (simp add: nunique_def df_ejemplo_def lectura_def)
  from phrase_answer_precedes_ai [of df_ejemplo "\<lambda>q. Some ''respuesta''" True
      "'' CU'' @ [CHR 0xC3, CHR 0x81] @ ''NTAS estaciones hay ''"] ne
  show ?thesis unfolding lower_cuantas n by auto
qed

text \<open>The claim as stated fails on a table without readings: building the phrase table
  raises, and the reply is the text of the \<^verbatim>\<open>except\<close> clause.\<close>

theorem phrase_answer_empty_table:
  "responder_pregunta (\<lambda>q. Some ''respuesta'') True \<lparr>columns = [], rows = []\<rparr>
     (''cu'' @ acute_a @ ''ntas estaciones hay'') = (Lo_siento_ocurrio_un_error, [])
   \<and> Lo_siento_ocurrio_un_error \<noteq> Tenemos_estaciones 0"
  by (simp add: responder_pregunta_def responder_heuristico_def respuestas_heuristicas_def
      series_min_def)

subsection \<open>Station by number\<close>

lemma estacion_cero_match:
  "estacion_match (strip (lower (''Estaci'' @ acute_o @ ''n 0''))) = Some ''0''"
  by (simp add: estacion_match_def line_matches_def startswith_def strip_def is_space_def
      code_def ascii_lower_def latin1_upper_def set_bit5_def is_digit_def)

text \<open>
  Claim C8 on the heuristic path. The text of the group is a digit, so the number is
  never negative; \<^verbatim>\<open>_responder_estacion_por_numero\<close> tests only
  \<^verbatim>\<open>numero <= len(estaciones)\<close>, and for the number 0 the index \<open>numero - 1\<close> is
  \<open>-1\<close>, Python's last element: the reply carries the data of the station with the
  greatest id instead of the message about the valid range.
\<close>

theorem station_zero_answers_last_station:
  "responder_pregunta (\<lambda>q. None) False df_ejemplo (''Estaci'' @ acute_o @ ''n 0'') =
     (Estacion_numero 0 ''Halley UIS''
        (lectura 2 ''Halley UIS'' (Some ''VUE+AIR'') ((2024, 5, 1), 7200000000000)
           [(''temp'', 53 / 2), (''ica'', 60)]), [])"
  by (simp add: responder_pregunta_def responder_heuristico_def respuestas_heuristicas_def
      patrones_def estacion_match_def line_matches_def startswith_def strip_def is_space_def
      code_def ascii_lower_def latin1_upper_def set_bit5_def is_digit_def
      responder_estacion_por_numero_def py_index_def latest_row_def series_min_def
      series_max_def int_of_digits_def digit_val_def unique_def df_ejemplo_def lectura_def
      sort_key_def insort_key_def)

text \<open>The composer of \<^verbatim>\<open>gemini_service.py\<close> tests both bounds: outside
  \<open>1..len\<close> it answers with the range and leaves the context as it is, inside it
  resets the context and answers for the station at position \<open>numero - 1\<close>.\<close>

lemma numero_fuera_de_rango:
  assumes "get_complete_data_for_chatbot df = Inr complete_data"
      and "n < 1 \<or> int (length (cd_stations complete_data)) < n"
  shows "estado_actual_por_numero df svc (PInt n) =
           (Numero_fuera_de_rango (length (cd_stations complete_data)), svc)"
  using assms by (simp add: estado_actual_por_numero_def)

lemma numero_en_rango:
  assumes "get_complete_data_for_chatbot df = Inr complete_data"
      and "1 \<le> n" and "n \<le> int (length (cd_stations complete_data))"
  shows "\<exists>respuesta. estado_actual_por_numero df svc (PInt n) =
           (respuesta, svc\<lparr>last_menu_shown := None\<rparr>)
         \<and> respuesta \<in> {No_hay_datos_recientes (ss_station_name (cd_stations complete_data ! nat (n - 1))),
              Estado_por_numero (ss_station_name (cd_stations complete_data ! nat (n - 1)))
                (latest_measurements (cd_stations complete_data ! nat (n - 1)))
                (latest_timestamp (cd_stations complete_data ! nat (n - 1)))
                (interpretar_calidad_aire
                   (map_of (latest_measurements (cd_stations complete_data ! nat (n - 1))) ''ica'')
                   (map_of (latest_measurements (cd_stations complete_data ! nat (n - 1))) ''pm_2_5''))}"
  using assms by (simp add: estado_actual_por_numero_def py_index_def)

subsection \<open>Malformed dates\<close>

lemma check_date_error: "check_date y m d = Inl e \<Longrightarrow> e = ValueError"
  by (auto simp: check_date_def split: option.splits if_splits)

lemma strptime_error: "strptime s = Inl e \<Longrightarrow> e = ValueError"
  by (induction s rule: strptime.induct) (auto dest: check_date_error split: if_splits)

lemma averages_endpoint_malformed_date:
  assumes "strptime date = Inl e"
  shows "averages_endpoint df date variables = HTTPException 400 (Formato_de_fecha_invalido ValueError)"
  using assms strptime_error [OF assms]
  by (simp add: averages_endpoint_def get_all_stations_averages_def)

lemma station_averages_endpoint_malformed_date:
  assumes "strptime date = Inl e"
  shows "station_averages_endpoint df sid date variables =
           HTTPException 400 (Formato_de_fecha_invalido ValueError)"
  using assms strptime_error [OF assms]
  by (simp add: station_averages_endpoint_def get_station_averages_def
      get_all_stations_averages_def)

lemma averages_endpoint_internal_failure:
  assumes "get_all_stations_averages df date (Some (variable_list variables)) = Inl e"
      and "e \<noteq> ValueError"
  shows "averages_endpoint df date variables = HTTPException 500 (Error_interno_del_servidor e)"
  using assms by (simp add: averages_endpoint_def)

lemma detailed_data_endpoint_malformed_date:
  assumes "strptime date = Inl e"
  shows "detailed_data_endpoint df sid date =
           Response \<lparr>success = False, error_text = Some ValueError, det_station_id = sid,
                     det_station_name = None, det_date = date, total_measurements = None,
                     measurements = []\<rparr>"
  using assms strptime_error [OF assms]
  by (simp add: detailed_data_endpoint_def get_station_detailed_data_def)

lemma averages_endpoint_type_error:
  "averages_endpoint df_ejemplo ''2024-05-01'' ''station_name'' =
     HTTPException 500 (Error_interno_del_servidor TypeError)"
  by (simp add: averages_endpoint_def variable_list_def strip_def is_space_def code_def
      get_all_stations_averages_def check_date_def is_digit_def
      int_of_digits_def digit_val_def days_in_month_def df_ejemplo_def lectura_def
      in_day_def start_date_def end_date_def unique_def station_averages_def
      variable_average_def has_column_def base_columns_def column_value_def dropna_def)

lemma strptime_malformed: "strptime ''2024-13-45'' = Inl ValueError"
  by (simp add: check_date_def is_digit_def code_def)

text \<open>
  Claim C9 on the detailed-data endpoint. For a date that \<^verbatim>\<open>strptime\<close> rejects the
  two averages endpoints raise \<^verbatim>\<open>HTTPException\<close> with status 400, as the lemmas above
  show for every such date. \<^verbatim>\<open>get_station_detailed_data\<close> catches the
  \<^verbatim>\<open>ValueError\<close> itself, so its endpoint answers with status 200 and a payload whose
  \<^verbatim>\<open>success\<close> is false.
\<close>

theorem detailed_data_malformed_date_is_200:
  "detailed_data_endpoint df_ejemplo 2 ''2024-13-45'' =
     Response \<lparr>success = False, error_text = Some ValueError, det_station_id = 2,
               det_station_name = None, det_date = ''2024-13-45'', total_measurements = None,
               measurements = []\<rparr>
   \<and> averages_endpoint df_ejemplo ''2024-13-45'' ''temp'' =
     HTTPException 400 (Formato_de_fecha_invalido ValueError)"
  by (simp add: detailed_data_endpoint_malformed_date [OF strptime_malformed]
      averages_endpoint_malformed_date [OF strptime_malformed])

subsection \<open>Filtered data\<close>

lemma limit_records_bound:
  assumes "\<forall>rs n. n \<le> length rs \<longrightarrow> length (sample rs n) = n"
      and "limit_records sample query rs = Inr limited"
  shows "int (length limited) \<le> max_records query"
proof (cases "max_records query < int (length rs)")
  case True
  with assms(2) have nn: "0 \<le> max_records query" and l: "limited = sample rs (nat (max_records query))"
    by (auto simp: limit_records_def split: if_splits)
  from True nn have "nat (max_records query) \<le> length rs" by simp
  with assms(1) have "length (sample rs (nat (max_records query))) = nat (max_records query)"
    by blast
  with l nn show ?thesis by simp
next
  case False
  with assms(2) show ?thesis by (simp add: limit_records_def)
qed

lemma limit_records_total:
  "0 \<le> max_records query \<Longrightarrow> \<exists>limited. limit_records sample query rs = Inr limited"
  by (simp add: limit_records_def)

text \<open>
  Claim C10. \<open>sample\<close> returns \<open>n\<close> rows when asked for \<open>n\<close> rows of a table that has
  at least \<open>n\<close>. Then every result of \<^verbatim>\<open>get_filtered_data\<close> reports
  \<^verbatim>\<open>total_records\<close> no greater than \<^verbatim>\<open>max_records\<close>, and with
  \<^verbatim>\<open>include_raw_data\<close> it carries a list of at most \<^verbatim>\<open>max_records\<close> records. A
  result is returned when the query has no date range (no date to parse),
  \<^verbatim>\<open>max_records\<close> is not negative and the column \<^verbatim>\<open>timestamp\<close> is selected once.
\<close>

theorem filtered_data_bounded:
  assumes "\<forall>rs n. n \<le> length rs \<longrightarrow> length (sample rs n) = n"
  shows "(\<forall>result. get_filtered_data to_datetime sample df query = Inr result \<longrightarrow>
            int (total_records result) \<le> max_records query
            \<and> (include_raw_data query \<longrightarrow>
                  (\<exists>records. result_data result = Some records
                      \<and> int (length records) \<le> max_records query)))
         \<and> (q_date_range query = None \<and> 0 \<le> max_records query
              \<and> length (filter (\<lambda>c. c = ''timestamp'') (select_columns df query)) \<le> 1 \<longrightarrow>
              (\<exists>result. get_filtered_data to_datetime sample df query = Inr result))"
proof (intro conjI allI impI)
  fix result
  assume r: "get_filtered_data to_datetime sample df query = Inr result"
  then obtain dated limited where
    l: "limit_records sample query dated = Inr limited"
    and b: "build_result query (select_columns df query) limited = Inr result"
    by (auto simp: get_filtered_data_def split: sum.splits)
  from limit_records_bound [OF assms l] have le: "int (length limited) \<le> max_records query" .
  from b have t: "total_records result = length limited"
    and d: "result_data result = (if include_raw_data query then Some limited else None)"
    by (auto simp: build_result_def split: if_splits)
  from t le show "int (total_records result) \<le> max_records query" by simp
  assume "include_raw_data query"
  with d le show "\<exists>records. result_data result = Some records
                      \<and> int (length records) \<le> max_records query" by simp
next
  assume a: "q_date_range query = None \<and> 0 \<le> max_records query
              \<and> length (filter (\<lambda>c. c = ''timestamp'') (select_columns df query)) \<le> 1"
  then obtain limited where
    "limit_records sample query (filter_stations query (rows df)) = Inr limited"
    using limit_records_total by blast
  with a show "\<exists>result. get_filtered_data to_datetime sample df query = Inr result"
    by (simp add: get_filtered_data_def filter_dates_def build_result_def)
qed

theorem filtered_data_bounded_witness:
  "\<exists>result. get_filtered_data reloj (\<lambda>rs n. take n rs) df_ejemplo consulta_ejemplo = Inr result
      \<and> total_records result = 2
      \<and> (\<exists>records. result_data result = Some records \<and> length records = 2)"
proof -
  have s: "\<forall>rs n. n \<le> length rs \<longrightarrow> length (take n rs :: reading list) = n" by simp
  have c: "q_date_range consulta_ejemplo = None \<and> 0 \<le> max_records consulta_ejemplo
      \<and> length (filter (\<lambda>c. c = ''timestamp'') (select_columns df_ejemplo consulta_ejemplo)) \<le> 1"
    by (simp add: consulta_ejemplo_def select_columns_def has_column_def df_ejemplo_def)
  have i: "include_raw_data consulta_ejemplo" "max_records consulta_ejemplo = 2"
    by (simp_all add: consulta_ejemplo_def)
  from filtered_data_bounded [of "\<lambda>rs n. take n rs" reloj df_ejemplo consulta_ejemplo, OF s] c
  obtain result where r: "get_filtered_data reloj (\<lambda>rs n. take n rs) df_ejemplo consulta_ejemplo = Inr result"
    by blast
  from filtered_data_bounded [of "\<lambda>rs n. take n rs" reloj df_ejemplo consulta_ejemplo, OF s] r i
  obtain records where le: "int (total_records result) \<le> 2"
    "result_data result = Some records" "int (length records) \<le> 2"
    by auto
  have "total_records result = 2 \<and> result_data result = Some (take 2 (rows df_ejemplo))"
    using r by (auto simp: get_filtered_data_def filter_dates_def filter_stations_def
        limit_records_def build_result_def consulta_ejemplo_def df_ejemplo_def lectura_def
        select_columns_def has_column_def split: if_splits)
  then show ?thesis using r by (auto simp: df_ejemplo_def)
qed

subsection \<open>The menu context\<close>

lemma main_menu_options:
  "interpretar_pregunta gemini credential None ''a'' = JDict [(''accion'', PStr ''listar'')]"
  "interpretar_pregunta gemini credential None ''b'' =
     JDict [(''accion'', PStr ''concepto''), (''variable'', PNone)]"
  by (simp_all add: interpretar_pregunta_def strip_def is_space_def code_def ascii_lower_def
      saludos_def startswith_def)

lemma listar_estaciones_reply:
  "\<not> accion_terminal (listar_estaciones df) \<and> \<not> estado_por_nombre (listar_estaciones df)"
  by (simp add: listar_estaciones_def split: sum.splits)

lemma informacion_general_reply:
  "\<not> accion_terminal (informacion_general df) \<and> \<not> estado_por_nombre (informacion_general df)"
  by (simp add: informacion_general_def split: sum.splits)

lemma estado_actual_reply: "\<not> accion_terminal (estado_actual df e)"
  by (simp add: estado_actual_def split: sum.splits pyval.splits option.splits)

lemma estado_actual_por_numero_state:
  assumes "estado_actual_por_numero df svc numero = (respuesta, svc')"
  shows "(accion_terminal respuesta \<longrightarrow> svc' = svc\<lparr>last_menu_shown := None\<rparr>)
         \<and> \<not> estado_por_nombre respuesta"
  using assms
  by (auto simp: estado_actual_por_numero_def split: sum.splits pyval.splits if_splits)

lemma concepto_por_letra_state:
  assumes "concepto_por_letra svc letra = (respuesta, svc')"
  shows "(accion_terminal respuesta \<longrightarrow> svc' = svc\<lparr>last_menu_shown := None\<rparr>)
         \<and> \<not> estado_por_nombre respuesta"
  using assms
  by (auto simp: concepto_por_letra_def split: pyval.splits option.splits)

lemma componer_state:
  assumes "componer rnd df svc pregunta intent = (respuesta, svc')"
  shows "(accion_terminal respuesta \<longrightarrow> svc' = svc\<lparr>last_menu_shown := None\<rparr>)
         \<and> (estado_por_nombre respuesta \<longrightarrow> svc' = svc)"
  using assms listar_estaciones_reply [of df] informacion_general_reply [of df]
    estado_actual_reply [of df "dict_get intent ''estacion'' PNone"]
    estado_actual_por_numero_state [of df svc "dict_get intent ''numero_estacion'' (PInt 0)" respuesta svc']
    concepto_por_letra_state [of svc "dict_get intent ''letra_concepto'' (PStr [])" respuesta svc']
  unfolding componer_def
  by (auto split: if_splits pyval.splits)


text \<open>
  Claim C7, as the code has it. When \<^verbatim>\<open>procesar_pregunta\<close> answers with a greeting,
  with the state of the station chosen by number, or with the concept chosen by letter,
  it leaves \<^verbatim>\<open>last_menu_shown\<close> at \<^verbatim>\<open>None\<close>, and the bare messages \<^verbatim>\<open>a\<close> and
  \<^verbatim>\<open>b\<close> are then resolved to the two options of the main menu. When it answers with
  the state of a station found by name, it leaves the service as it was.
\<close>

theorem context_reset_after_terminal_action:
  assumes "procesar_pregunta gemini rnd df svc pregunta = (respuesta, svc')"
  shows "(accion_terminal respuesta \<longrightarrow>
            last_menu_shown svc' = None \<and> has_gemini svc' = has_gemini svc
            \<and> interpretar_pregunta gemini (has_gemini svc') (last_menu_shown svc') ''a''
                = JDict [(''accion'', PStr ''listar'')]
            \<and> interpretar_pregunta gemini (has_gemini svc') (last_menu_shown svc') ''b''
                = JDict [(''accion'', PStr ''concepto''), (''variable'', PNone)])
         \<and> (estado_por_nombre respuesta \<longrightarrow> svc' = svc)"
proof (cases "interpretar_pregunta gemini (has_gemini svc) (last_menu_shown svc) pregunta")
  case JNonDict
  with assms show ?thesis by (auto simp: procesar_pregunta_def)
next
  case (JDict intent)
  with assms have "componer rnd df svc pregunta intent = (respuesta, svc')"
    by (simp add: procesar_pregunta_def)
  from componer_state [OF this] show ?thesis
    by (auto simp: main_menu_options)
qed

lemma complete_data_ejemplo:
  "get_complete_data_for_chatbot df_ejemplo =
     Inr \<lparr>cd_stations =
            [\<lparr>ss_station_id = 2, ss_station_name = ''Halley UIS'',
              latest_timestamp = ((2024, 5, 1), 7200000000000),
              latest_measurements = [(''temp'', 53 / 2), (''ica'', 60)]\<rparr>,
             \<lparr>ss_station_id = 1, ss_station_name = ''Colegio'',
              latest_timestamp = ((2024, 5, 2), 0),
              latest_measurements = [(''temp'', 21), (''humedad'', 80)]\<rparr>],
          cd_total_records = 3, cd_total_days = 2\<rparr>"
  by (simp add: get_complete_data_for_chatbot_def station_summary_of_def latest_row_def
      series_max_def get_latest_measurements_def row_get_def has_column_def base_columns_def
      nunique_def unique_def df_ejemplo_def lectura_def)

text \<open>The claim as stated fails for the look-up by name: after the station list, the
  message \<^verbatim>\<open>Halley\<close> is answered with the state of that station and the context is
  still the station list, so the next \<^verbatim>\<open>b\<close> is not read as the option of the main
  menu.\<close>

theorem lookup_by_name_keeps_context:
  "procesar_pregunta (\<lambda>q. None) 0 df_ejemplo
     \<lparr>has_gemini = False, last_menu_shown = Some Estaciones\<rparr> ''Halley'' =
     (Estado_de_estacion ''Halley UIS'' [(''temp'', 53 / 2), (''ica'', 60)]
        ((2024, 5, 1), 7200000000000) (Segun_ica 1),
      \<lparr>has_gemini = False, last_menu_shown = Some Estaciones\<rparr>)
   \<and> interpretar_pregunta (\<lambda>q. None) False (Some Estaciones) ''b'' =
       JDict [(''accion'', PStr ''estado_actual''), (''estacion'', PStr ''b'')]"
  by (simp add: procesar_pregunta_def interpretar_pregunta_def componer_def dict_get_def
      estado_actual_def complete_data_ejemplo interpretar_calidad_aire_def
      strip_def is_space_def code_def ascii_lower_def
      saludos_def preguntas_complejas_def startswith_def que_es_acento_def
      cuantas_estaciones_acento_def)

theorem context_reset_after_terminal_action_witness:
  "\<exists>svc'. procesar_pregunta (\<lambda>q. None) 1 df_ejemplo
       \<lparr>has_gemini = True, last_menu_shown = Some Estaciones\<rparr> ''2'' =
       (Estado_por_numero ''Colegio'' [(''temp'', 21), (''humedad'', 80)] ((2024, 5, 2), 0)
          Sin_datos_de_calidad, svc')
     \<and> last_menu_shown svc' = None"
proof -
  have e: "procesar_pregunta (\<lambda>q. None) 1 df_ejemplo
       \<lparr>has_gemini = True, last_menu_shown = Some Estaciones\<rparr> ''2'' =
       (Estado_por_numero ''Colegio'' [(''temp'', 21), (''humedad'', 80)] ((2024, 5, 2), 0)
          Sin_datos_de_calidad, \<lparr>has_gemini = True, last_menu_shown = None\<rparr>)"
    by (simp add: procesar_pregunta_def interpretar_pregunta_def componer_def dict_get_def
      estado_actual_por_numero_def complete_data_ejemplo interpretar_calidad_aire_def
      py_index_def numero_match_def is_digit_def is_af_def int_of_digits_def digit_val_def
      strip_def is_space_def code_def ascii_lower_def
      saludos_def preguntas_complejas_def startswith_def que_es_acento_def
      cuantas_estaciones_acento_def)
  from context_reset_after_terminal_action [OF e]
  have "last_menu_shown \<lparr>has_gemini = True, last_menu_shown = None\<rparr> = None" by simp
  with e show ?thesis by blast
qed

end
